theory Spec2Isabelle
  imports Complex_Main "HOL-Library.Char_ord" "HOL-Library.List_Lexorder" "HOL-Library.Log_Nat"
begin

section \<open>Strings, dedup identities and key encoding\<close>

text \<open>
  A Python \<open>str\<close> is represented by the list of the bytes of its UTF-8 encoding.
  The encoding is injective and preserves the code point order, so equality tests and
  \<open>sort(key=...)\<close> on \<open>str\<close> values are equality and lexicographic order on these lists.
\<close>

text \<open>\<open>f"{version['Key']}-{version['VersionId']}"\<close>, the dedup identity of
  \<open>process_batch\<close> and \<open>_check_existing_csv_for_resume\<close>.\<close>

definition key_version :: "string \<Rightarrow> string \<Rightarrow> string" where
  "key_version k v = k @ ''-'' @ v"

text \<open>\<open>urllib.parse\<close>: the bytes never quoted, the \<open>'%{:02X}'\<close> quoter,
  \<open>quote_from_bytes\<close>, and \<open>quote_plus\<close>, which adds the space to the safe bytes and then
  replaces every space by a plus sign.\<close>

definition always_safe :: "char set" where
  "always_safe = set (''ABCDEFGHIJKLMNOPQRSTUVWXYZ'' @ ''abcdefghijklmnopqrstuvwxyz''
                      @ ''0123456789'' @ ''_.-~'')"

definition hex_digit :: "nat \<Rightarrow> char" where
  "hex_digit n = ''0123456789ABCDEF'' ! (n mod 16)"

definition quoter :: "string \<Rightarrow> char \<Rightarrow> string" where
  "quoter safe c =
     (if c \<in> always_safe \<or> (c \<in> set safe \<and> (of_char c :: nat) < 128) then [c]
      else [CHR ''%'', hex_digit ((of_char c :: nat) div 16), hex_digit ((of_char c :: nat) mod 16)])"

definition quote_from_bytes :: "string \<Rightarrow> string \<Rightarrow> string" where
  "quote_from_bytes bs safe = concat (map (quoter safe) bs)"

definition quote_plus :: "string \<Rightarrow> string \<Rightarrow> string" where
  "quote_plus s safe =
     (if CHR '' '' \<notin> set s then quote_from_bytes s safe
      else map (\<lambda>c. if c = CHR '' '' then CHR ''+'' else c) (quote_from_bytes s (safe @ '' '')))"

text \<open>The expression of \<open>process_batch\<close> for the \<open>key_name\<close> column:
  \<open>quote_plus(key, safe='/', encoding='utf-8') if url_encode else key\<close>.\<close>

definition encode_key :: "bool \<Rightarrow> string \<Rightarrow> string" where
  "encode_key url_encode k = (if url_encode then quote_plus k ''/'' else k)"


section \<open>Listing responses and export rows\<close>

text \<open>
  One entry of \<open>response['Versions']\<close> or \<open>response['DeleteMarkers']\<close>. \<open>LastModified\<close>
  holds the text \<open>isoformat()\<close> gives for the entry's datetime. The loop over delete
  markers reads neither \<open>Size\<close> nor \<open>StorageClass\<close>.
\<close>

record entry =
  Key :: string
  VersionId :: string
  IsLatest :: bool
  Size :: int
  LastModified :: string
  StorageClass :: "string option"
  ETag :: "string option"

record response =
  Versions :: "entry list"
  DeleteMarkers :: "entry list"
  IsTruncated :: bool
  NextKeyMarker :: "string option"
  NextVersionIdMarker :: "string option"

text \<open>What one call of \<open>s3_client.list_object_versions\<close> does: it returns a response,
  raises a \<open>ClientError\<close> with an error code, raises another exception (with its
  \<open>str(e)\<close>), or the call is cut by \<open>KeyboardInterrupt\<close>.\<close>

datatype api_result =
    Response response
  | ClientError string
  | OtherException string
  | KeyboardInterrupt

text \<open>The row dictionaries: three columns in BOPS mode, nine otherwise.\<close>

datatype full_cols =
  FullCols (is_latest: bool) (delete_marker: bool) (size: int) (last_modified: string)
           (storage_class: string) (e_tag: string)

datatype row =
  Row (bucket_name: string) (key_name: string) (version_id: string) (extra: "full_cols option")

text \<open>\<open>s.strip('"')\<close>\<close>

definition strip_quotes :: "string \<Rightarrow> string" where
  "strip_quotes s = rev (dropWhile (\<lambda>c. c = CHR 0x22) (rev (dropWhile (\<lambda>c. c = CHR 0x22) s)))"

definition version_row :: "string \<Rightarrow> bool \<Rightarrow> bool \<Rightarrow> entry \<Rightarrow> row" where
  "version_row bucket bops_compatible url_encode v =
     Row bucket (encode_key url_encode (Key v)) (VersionId v)
       (if bops_compatible then None
        else Some (FullCols (IsLatest v) False (Size v) (LastModified v)
                     (case StorageClass v of None \<Rightarrow> ''STANDARD'' | Some c \<Rightarrow> c)
                     (strip_quotes (case ETag v of None \<Rightarrow> [] | Some t \<Rightarrow> t))))"

definition delete_marker_row :: "string \<Rightarrow> bool \<Rightarrow> bool \<Rightarrow> entry \<Rightarrow> row" where
  "delete_marker_row bucket bops_compatible url_encode d =
     Row bucket (encode_key url_encode (Key d)) (VersionId d)
       (if bops_compatible then None
        else Some (FullCols (IsLatest d) True 0 (LastModified d) ''STANDARD''
                     (strip_quotes (case ETag d of None \<Rightarrow> [] | Some t \<Rightarrow> t))))"

text \<open>
  The two \<open>for\<close> loops of \<open>process_batch\<close>, over the triple of \<open>self.processed_keys\<close>, the
  rows put on \<open>self.write_queue\<close> in this call (oldest first) and \<open>batch_count\<close>.

  \<open>self.write_queue\<close> is \<open>Queue(maxsize=10)\<close>, and \<open>put\<close> waits while the queue is full.
  While the writer thread is in its loop it keeps taking items out, and every \<open>put\<close>
  returns: \<open>room\<close> is \<open>None\<close>. When the writer thread has ended before it took an item,
  \<open>room\<close> is the number of free places the queue had at the start of the call, and the
  \<open>put\<close> that finds none left never returns. The second component of the result tells
  that this has happened; the identity of the record was added to the set before.
\<close>

fun process_entries ::
  "nat option \<Rightarrow> (entry \<Rightarrow> row) \<Rightarrow> entry list \<Rightarrow> string set \<times> row list \<times> nat \<Rightarrow>
   (string set \<times> row list \<times> nat) \<times> bool"
where
  "process_entries room mk [] acc = (acc, False)"
| "process_entries room mk (e # es) (seen, puts, batch_count) =
     (if key_version (Key e) (VersionId e) \<in> seen
      then process_entries room mk es (seen, puts, batch_count)
      else if (case room of None \<Rightarrow> False | Some free \<Rightarrow> free \<le> length puts)
      then ((insert (key_version (Key e) (VersionId e)) seen, puts, batch_count), True)
      else process_entries room mk es
             (insert (key_version (Key e) (VersionId e)) seen, puts @ [mk e], batch_count + 1))"

section \<open>The output file\<close>

text \<open>
  The CSV file is the list of its lines, a line the list of its field texts as
  \<open>csv.writer\<close> receives them. The writer thread opens the file with \<open>newline=''\<close>, so
  that the texts reach the file as they are (quoted where needed).
\<close>

type_synonym csv_line = "string list"

definition fieldnames_of :: "bool \<Rightarrow> string list" where
  "fieldnames_of bops_compatible =
     (if bops_compatible then [''bucket_name'', ''key_name'', ''version_id'']
      else [''bucket_name'', ''key_name'', ''version_id'', ''is_latest'', ''delete_marker'',
            ''size'', ''last_modified'', ''storage_class'', ''e_tag''])"

text \<open>\<open>str(n)\<close> for an integer.\<close>

definition digit_char :: "int \<Rightarrow> char" where
  "digit_char d = ''0123456789'' ! nat d"

function str_digits :: "int \<Rightarrow> string" where
  "str_digits n = (if n < 10 then [digit_char n] else str_digits (n div 10) @ [digit_char (n mod 10)])"
  by pat_completeness auto
termination
  by (relation "measure nat") auto

declare str_digits.simps [simp del]

definition str_int :: "int \<Rightarrow> string" where
  "str_int n = (if n < 0 then CHR ''-'' # str_digits (- n) else str_digits n)"

definition str_bool :: "bool \<Rightarrow> string" where
  "str_bool b = (if b then ''True'' else ''False'')"

text \<open>\<open>DictWriter.writerow\<close>: the values in the order of the field names.\<close>

definition writerow :: "row \<Rightarrow> csv_line" where
  "writerow r =
     [bucket_name r, key_name r, version_id r] @
     (case extra r of None \<Rightarrow> []
      | Some c \<Rightarrow> [str_bool (is_latest c), str_bool (delete_marker c), str_int (size c),
                   last_modified c, storage_class c, e_tag c])"

text \<open>
  \<open>_check_existing_csv_for_resume\<close> opens the file with \<open>open(output_file, 'r',
  encoding='utf-8')\<close>, without \<open>newline=''\<close>: the file object translates a carriage
  return followed by a line feed, and a carriage return alone, to a line feed, also inside
  a quoted field.
\<close>

fun universal_newlines :: "string \<Rightarrow> string" where
  "universal_newlines (a # b # s) =
     (if a = CHR 0x0D \<and> b = CHR 0x0A then CHR 0x0A # universal_newlines s
      else if a = CHR 0x0D then CHR 0x0A # universal_newlines (b # s)
      else a # universal_newlines (b # s))"
| "universal_newlines [a] = (if a = CHR 0x0D then [CHR 0x0A] else [a])"
| "universal_newlines [] = []"

text \<open>
  \<open>csv.DictReader\<close> on that file object: the first line gives the field names, every
  later line is the dictionary \<open>dict(zip(fieldnames, line))\<close>, a missing field read as
  \<open>None\<close>; blank lines after the first are skipped. \<open>row_get\<close> is the text
  \<open>f"{row.get(k, '')}"\<close>.
\<close>

definition row_get :: "string list \<Rightarrow> csv_line \<Rightarrow> string \<Rightarrow> string" where
  "row_get names line k =
     (case map_of (rev (zip names (map Some line @ replicate (length names - length line) None))) k of
        None \<Rightarrow> []
      | Some None \<Rightarrow> ''None''
      | Some (Some v) \<Rightarrow> v)"

definition dict_reader :: "csv_line list \<Rightarrow> (string list \<times> csv_line list)" where
  "dict_reader ls =
     (case ls of
        [] \<Rightarrow> ([], [])
      | names # rest \<Rightarrow>
          (map universal_newlines names,
           filter (\<lambda>l. l \<noteq> []) (map (map universal_newlines) rest)))"

text \<open>\<open>_check_existing_csv_for_resume\<close> on an existing, readable file: the identities
  added to \<open>self.processed_keys\<close> and the count returned.\<close>

definition csv_identities :: "csv_line list \<Rightarrow> string list" where
  "csv_identities ls =
     (case dict_reader ls of (names, rest) \<Rightarrow>
        map (\<lambda>l. key_version (row_get names l ''key_name'') (row_get names l ''version_id'')) rest)"

definition check_existing_csv_for_resume ::
  "csv_line list option \<Rightarrow> string set \<Rightarrow> string set \<times> nat" where
  "check_existing_csv_for_resume file seen =
     (case file of None \<Rightarrow> (seen, 0)
      | Some ls \<Rightarrow> (seen \<union> set (csv_identities ls), length (csv_identities ls)))"

section \<open>Percent-encoding as the specification words it\<close>

text \<open>
  The specification's reading of the \<open>key_name\<close> column, for comparison with
  \<open>encode_key\<close>: every byte of the UTF-8 key that is neither unreserved nor the path
  separator is written as a percent sign and two hexadecimal digits.
\<close>

definition spec_escape :: "char \<Rightarrow> string" where
  "spec_escape c =
     (if c \<in> always_safe \<or> c = CHR ''/'' then [c]
      else [CHR ''%'', hex_digit ((of_char c :: nat) div 16), hex_digit ((of_char c :: nat) mod 16)])"

definition spec_percent_encode :: "string \<Rightarrow> string" where
  "spec_percent_encode k = concat (map spec_escape k)"

section \<open>The Batch Writer\<close>

text \<open>
  \<open>csv_writer_worker\<close> runs in its own thread. Once it is in its loop, its only inputs
  are the items it gets from \<open>self.write_queue\<close> and the time; both are given here by the
  queue's future content (\<open>None\<close> is the sentinel) and by a schedule holding, for each turn
  of the outer \<open>while\<close> loop, the number of \<open>get\<close> calls the two seconds of the collection
  leave room for, and what the operating system does to the write of that turn.
\<close>

datatype write_outcome =
    WriteOk
  | WriteFails nat  \<comment> \<open>an exception of \<open>writerow\<close> or \<open>flush\<close>; that many rows reach the file\<close>

text \<open>
  What happens after the loop, where the rows left are written without a \<open>flush\<close> and
  the \<open>with\<close> block closes the file: no exception; an exception of \<open>writerow\<close>, before
  the counter is raised; or an exception of the \<open>close\<close>, which writes out what the file
  object still holds, after the counter was raised.
\<close>

datatype closing =
    Closes
  | RowFails nat  \<comment> \<open>\<open>writerow\<close> raises; that many rows reach the file\<close>
  | CloseFails nat  \<comment> \<open>\<open>close\<close> raises; that many rows reach the file\<close>

record writer =
  queue :: "row option list"
  sort_buffer :: "row list"
  written :: "row list list"  \<comment> \<open>the write units appended to the file, oldest first\<close>
  total_processed :: nat
  writer_errors :: nat  \<comment> \<open>the writer's increments of \<open>self.error_count\<close>\<close>
  stop_writer :: bool

text \<open>
  The inner \<open>while len(current_batch) < 2000 and (time.time() - batch_start) < 2.0\<close>:
  a \<open>get\<close> that times out raises \<open>Empty\<close> and breaks, the sentinel sets \<open>stop_writer\<close>
  and breaks. The result is the batch, the rest of the queue and whether the sentinel came.
\<close>

fun collect :: "nat \<Rightarrow> row option list \<Rightarrow> row list \<Rightarrow> row list \<times> row option list \<times> bool" where
  "collect 0 q current_batch = (current_batch, q, False)"
| "collect (Suc n) [] current_batch = (current_batch, [], False)"
| "collect (Suc n) (None # q) current_batch =
     (if int (length current_batch) < 2000 then (current_batch, q, True)
      else (current_batch, None # q, False))"
| "collect (Suc n) (Some item # q) current_batch =
     (if int (length current_batch) < 2000 then collect n q (current_batch @ [item])
      else (current_batch, Some item # q, False))"

text \<open>
  One turn of the outer loop. A write that raises leaves the rows written so far in the
  file, is caught by the \<open>except Exception\<close> inside the loop, which counts an error, and
  leaves \<open>sort_buffer\<close> as it is (sorted in place), so that the next turn writes it again.
\<close>

definition writer_turn :: "nat \<times> write_outcome \<Rightarrow> writer \<Rightarrow> writer" where
  "writer_turn turn w =
     (case collect (fst turn) (queue w) [] of (current_batch, q, sentinel) \<Rightarrow>
        let buf = sort_buffer w @ current_batch;
            stop = (stop_writer w \<or> sentinel);
            w1 = w\<lparr>queue := q, stop_writer := stop\<rparr>
        in if 4000 \<le> int (length buf) \<or> (stop \<and> buf \<noteq> []) then
             (case snd turn of
                WriteOk \<Rightarrow>
                  w1\<lparr>sort_buffer := [],
                     written := written w @ [sort_key key_name buf],
                     total_processed := total_processed w + length buf\<rparr>
              | WriteFails k \<Rightarrow>
                  w1\<lparr>sort_buffer := sort_key key_name buf,
                     written := written w @ [take k (sort_key key_name buf)],
                     writer_errors := writer_errors w + 1\<rparr>)
           else w1\<lparr>sort_buffer := buf\<rparr>)"

text \<open>\<open>while not self.stop_writer or not self.write_queue.empty()\<close>; \<open>None\<close> when the
  schedule ends with the loop still running.\<close>

fun writer_loop :: "(nat \<times> write_outcome) list \<Rightarrow> writer \<Rightarrow> writer option" where
  "writer_loop [] w = (if \<not> stop_writer w \<or> queue w \<noteq> [] then None else Some w)"
| "writer_loop (turn # turns) w =
     (if \<not> stop_writer w \<or> queue w \<noteq> [] then writer_loop turns (writer_turn turn w) else Some w)"

text \<open>
  After the loop, \<open>if sort_buffer:\<close> writes what a failed write left behind and raises
  \<open>self.total_processed\<close>; then the file is closed. An exception here reaches the outer
  handler: \<open>sys.exit(1)\<close> in the writer's thread ends that thread and nothing else.
\<close>

datatype thread_end = Returned | ThreadExit

definition write_remaining :: "closing \<Rightarrow> writer \<Rightarrow> thread_end \<times> writer" where
  "write_remaining last_write w =
     (if sort_buffer w \<noteq> [] then
        (case last_write of
           Closes \<Rightarrow>
             (Returned, w\<lparr>sort_buffer := sort_key key_name (sort_buffer w),
                           written := written w @ [sort_key key_name (sort_buffer w)],
                           total_processed := total_processed w + length (sort_buffer w)\<rparr>)
         | RowFails k \<Rightarrow>
             (ThreadExit, w\<lparr>sort_buffer := sort_key key_name (sort_buffer w),
                             written := written w @ [take k (sort_key key_name (sort_buffer w))]\<rparr>)
         | CloseFails k \<Rightarrow>
             (ThreadExit, w\<lparr>sort_buffer := sort_key key_name (sort_buffer w),
                             written := written w @ [take k (sort_key key_name (sort_buffer w))],
                             total_processed := total_processed w + length (sort_buffer w)\<rparr>))
      else (case last_write of CloseFails k \<Rightarrow> (ThreadExit, w) | _ \<Rightarrow> (Returned, w)))"

text \<open>The thread from the start of its loop, the file open and the header written, to
  its end; \<open>None\<close> when it is still in its loop at the end of the schedule.\<close>

definition csv_writer_worker ::
  "(nat \<times> write_outcome) list \<Rightarrow> closing \<Rightarrow> row option list \<Rightarrow> (thread_end \<times> writer) option" where
  "csv_writer_worker turns last_write items =
     map_option (write_remaining last_write)
       (writer_loop turns
          \<lparr>queue = items, sort_buffer = [], written = [], total_processed = 0,
           writer_errors = 0, stop_writer = False\<rparr>)"

text \<open>Every write unit of a writer is in non-decreasing order of \<open>key_name\<close>.\<close>

definition units_sorted :: "writer \<Rightarrow> bool" where
  "units_sorted w = list_all (\<lambda>u. sorted (map key_name u)) (written w)"

section \<open>The Checkpoint Manager\<close>

text \<open>
  A Python \<open>float\<close>: a finite double, an infinity, or not a number.
\<close>

datatype pyfloat = Finite real | PlusInfinity | MinusInfinity | NaN

text \<open>
  What \<open>json.load\<close> gives for a state file, or its failure. A number written without
  fraction and exponent is an \<open>int\<close> of any size, every other number a \<open>float\<close>
  (\<open>Infinity\<close>, \<open>-Infinity\<close> and \<open>NaN\<close> are read too). An object keeps its members in
  the order of the text; a name that occurs twice has its last value.
\<close>

datatype json =
    JNull
  | JBool bool
  | JInt int
  | JFloat pyfloat
  | JStr string
  | JArr "json list"
  | JObj "(string \<times> json) list"

datatype file_content = NotJson | Json json

definition lookup :: "(string \<times> json) list \<Rightarrow> string \<Rightarrow> json option" where
  "lookup state k = map_of (rev state) k"

text \<open>\<open>state.get(k)\<close>\<close>

definition dict_get :: "(string \<times> json) list \<Rightarrow> string \<Rightarrow> json" where
  "dict_get state k = (case lookup state k of None \<Rightarrow> JNull | Some v \<Rightarrow> v)"

text \<open>Python's truth value of a loaded value.\<close>

fun truthy :: "json \<Rightarrow> bool" where
  "truthy JNull = False"
| "truthy (JBool b) = b"
| "truthy (JInt i) = (i \<noteq> 0)"
| "truthy (JFloat f) = (f \<noteq> Finite 0)"
| "truthy (JStr s) = (s \<noteq> [])"
| "truthy (JArr xs) = (xs \<noteq> [])"
| "truthy (JObj kvs) = (kvs \<noteq> [])"

text \<open>
  The conversion of an \<open>int\<close> that meets a \<open>float\<close> in \<open>+\<close> or \<open>-\<close>: the nearest double,
  a tie going to the one with the even 53-bit significand. \<open>None\<close> is the
  \<open>OverflowError\<close> (int too large to convert to float) of a result beyond the largest
  double.
\<close>

definition int_to_float :: "int \<Rightarrow> real option" where
  "int_to_float i =
     (let a = \<bar>i\<bar>;
          shift = nat (bitlen a - 53);
          q = a div 2 ^ shift;
          r = a mod 2 ^ shift;
          rounded = (if 2 * r > 2 ^ shift \<or> (2 * r = 2 ^ shift \<and> odd q) then q + 1 else q) * 2 ^ shift
      in if 1024 < bitlen rounded then None else Some (of_int (sgn i * rounded)))"

text \<open>The exceptions of arithmetic on a loaded value.\<close>

datatype py_error = TypeError | OverflowError

text \<open>A loaded value as the other operand of a \<open>float\<close> in \<open>+\<close> or \<open>-\<close>: a \<open>bool\<close> counts
  as 0 or 1; \<open>None\<close>, a text, a list and a dictionary raise \<open>TypeError\<close>.\<close>

fun float_operand :: "json \<Rightarrow> py_error + pyfloat" where
  "float_operand (JInt i) =
     (case int_to_float i of None \<Rightarrow> Inl OverflowError | Some x \<Rightarrow> Inr (Finite x))"
| "float_operand (JFloat f) = Inr f"
| "float_operand (JBool b) = Inr (Finite (if b then 1 else 0))"
| "float_operand JNull = Inl TypeError"
| "float_operand (JStr s) = Inl TypeError"
| "float_operand (JArr xs) = Inl TypeError"
| "float_operand (JObj kvs) = Inl TypeError"

text \<open>
  \<open>abs(c - m) > 10\<close> for a double \<open>c\<close> and a float \<open>m\<close>. The difference of two doubles
  is the double nearest to their exact difference, a tie going to the even one. The
  double next above 10 is 10 + 1 / 2 ^ 49, and of the two 10 is the even one: the float
  computed is above 10 exactly when the exact difference is above 10 + 1 / 2 ^ 50. The
  distance to an infinity is infinite, and every comparison with \<open>NaN\<close> is false.
\<close>

fun exceeds_tolerance :: "real \<Rightarrow> pyfloat \<Rightarrow> bool" where
  "exceeds_tolerance c (Finite m) = (\<bar>c - m\<bar> > 10 + 1 / 2 ^ 50)"
| "exceeds_tolerance c PlusInfinity = True"
| "exceeds_tolerance c MinusInfinity = True"
| "exceeds_tolerance c NaN = False"

text \<open>
  \<open>v + d\<close> for a loaded value \<open>v\<close> and a double \<open>d\<close>. The sum of two doubles is kept
  exact here: its rounding to a double, which changes the figure stored and nothing else,
  is left out.
\<close>

definition add_float :: "json \<Rightarrow> real \<Rightarrow> py_error + pyfloat" where
  "add_float v d =
     (case float_operand v of
        Inl e \<Rightarrow> Inl e
      | Inr (Finite x) \<Rightarrow> Inr (Finite (x + d))
      | Inr f \<Rightarrow> Inr f)"

definition json_of_optstr :: "string option \<Rightarrow> json" where
  "json_of_optstr s = (case s of None \<Rightarrow> JNull | Some t \<Rightarrow> JStr t)"

text \<open>
  A \<open>datetime\<close> is its count of microseconds (not negative), and the text
  \<open>isoformat()\<close> gives for it is represented by the decimal numeral of that count: \<open>fromisoformat\<close> reads the texts
  \<open>isoformat\<close> writes and raises \<open>ValueError\<close> (here \<open>None\<close>) on any other text.
  A reading of \<open>time.time()\<close> is a real number of seconds.
\<close>

definition isoformat :: "int \<Rightarrow> string" where
  "isoformat t = str_int t"

definition digit_val :: "char \<Rightarrow> int" where
  "digit_val c = (of_char c :: int) - 48"

definition fromisoformat :: "string \<Rightarrow> int option" where
  "fromisoformat s =
     (if s \<noteq> [] \<and> list_all (\<lambda>c. c \<in> set ''0123456789'') s
      then Some (foldl (\<lambda>a c. 10 * a + digit_val c) 0 s) else None)"

text \<open>\<open>timedelta(hours=24)\<close> in microseconds.\<close>

definition hours24 :: int where
  "hours24 = 86400000000"

text \<open>
  The attributes of \<open>self\<close> the export reads and writes. \<open>write_queue\<close> holds the items put
  so far, oldest first, \<open>None\<close> for the sentinel. \<open>original_start_time\<close> and
  \<open>cumulative_runtime\<close> are \<open>None\<close> while the attribute is not set; \<open>export_versions\<close>
  sets them to numbers, \<open>_load_resume_state\<close> to whatever the state file holds.
\<close>

record exporter =
  processed_keys :: "string set"
  write_queue :: "row option list"
  error_count :: nat
  resume_state_file :: "string option"
  current_batch_num :: int
  original_start_time :: "json option"
  cumulative_runtime :: "json option"
  session_start_time :: real

text \<open>\<open>getattr(self, 'cumulative_runtime', 0) + (t - self.session_start_time)\<close> for a
  reading \<open>t\<close> of \<open>time.time()\<close>.\<close>

definition elapsed_runtime :: "exporter \<Rightarrow> real \<Rightarrow> py_error + pyfloat" where
  "elapsed_runtime self t =
     add_float (case cumulative_runtime self of None \<Rightarrow> JInt 0 | Some v \<Rightarrow> v)
       (t - session_start_time self)"

text \<open>The files: output files with their lines and modification time, and state files.\<close>

record fsys =
  csv_files :: "string \<rightharpoonup> csv_line list \<times> real"
  state_files :: "string \<rightharpoonup> file_content"

text \<open>\<open>os.path.getmtime(output_file) if os.path.exists(output_file) else None\<close>\<close>

definition getmtime :: "fsys \<Rightarrow> string \<Rightarrow> real option" where
  "getmtime fs output_file = map_option snd (csv_files fs output_file)"

text \<open>
  The dictionary \<open>_save_resume_state\<close> dumps. \<open>set_iteration\<close> is the order in which
  Python iterates over a set, \<open>now\<close> the reading of \<open>datetime.now()\<close>, \<open>clock\<close> that of
  \<open>time.time()\<close>, \<open>mtime\<close> the value of the \<open>csv_mtime\<close> expression above, and
  \<open>runtime\<close> the value of the \<open>cumulative_runtime\<close> expression.
\<close>

definition checkpoint_state ::
  "(string set \<Rightarrow> string list) \<Rightarrow> int \<Rightarrow> real \<Rightarrow> real option \<Rightarrow> exporter \<Rightarrow> string \<Rightarrow>
   string option \<Rightarrow> string option \<Rightarrow> string option \<Rightarrow> int \<Rightarrow> int \<Rightarrow> pyfloat \<Rightarrow>
   (string \<times> json) list" where
  "checkpoint_state set_iteration now clock mtime self bucket prefix next_key_marker next_version_marker
     batch_num total_items runtime =
     [(''bucket_name'', JStr bucket),
      (''prefix'', json_of_optstr prefix),
      (''next_key_marker'', json_of_optstr next_key_marker),
      (''next_version_marker'', json_of_optstr next_version_marker),
      (''batch_num'', JInt batch_num),
      (''total_items'', JInt total_items),
      (''timestamp'', JStr (isoformat now)),
      (''original_start_time'',
         (case original_start_time self of None \<Rightarrow> JFloat (Finite clock) | Some v \<Rightarrow> v)),
      (''cumulative_runtime'', JFloat runtime),
      (''csv_mtime'', (case mtime of None \<Rightarrow> JNull | Some m \<Rightarrow> JFloat (Finite m))),
      (''processed_keys'', JArr (map JStr (set_iteration (processed_keys self))))]"

text \<open>
  How the write of the state file ends: done, an exception of \<open>open\<close> (the file is as it
  was), or an exception of \<open>json.dump\<close> (the file is left cut). Both exceptions are caught
  and only print a warning.
\<close>

datatype save_outcome = Saved | OpenFails | DumpFails

text \<open>
  \<open>_save_resume_state\<close>. The dictionary is built before the \<open>try\<close>: when the sum for
  \<open>cumulative_runtime\<close> raises, the exception leaves the function (\<open>Inl\<close>) and the files
  are as they were.
\<close>

definition save_resume_state ::
  "(string set \<Rightarrow> string list) \<Rightarrow> save_outcome \<Rightarrow> int \<Rightarrow> real \<Rightarrow> real option \<Rightarrow> exporter \<Rightarrow>
   fsys \<Rightarrow> string \<Rightarrow> string option \<Rightarrow> string option \<Rightarrow> string option \<Rightarrow> int \<Rightarrow> int \<Rightarrow>
   py_error + fsys" where
  "save_resume_state set_iteration outcome now clock mtime self fs bucket prefix next_key_marker
     next_version_marker batch_num total_items =
     (case resume_state_file self of
        None \<Rightarrow> Inr fs
      | Some path \<Rightarrow>
          (case elapsed_runtime self clock of
             Inl e \<Rightarrow> Inl e
           | Inr runtime \<Rightarrow>
               (case outcome of
                  OpenFails \<Rightarrow> Inr fs
                | DumpFails \<Rightarrow> Inr (fs\<lparr>state_files := (state_files fs)(path \<mapsto> NotJson)\<rparr>)
                | Saved \<Rightarrow>
                    Inr (fs\<lparr>state_files := (state_files fs)(path \<mapsto>
                           Json (JObj (checkpoint_state set_iteration now clock mtime self bucket
                                         prefix next_key_marker next_version_marker batch_num
                                         total_items runtime)))\<rparr>))))"

text \<open>
  The rejections of \<open>_load_resume_state\<close>, one for each text of its \<open>{'error': ...}\<close>
  results: \<open>checkpoint file does not exist\<close>, \<open>bucket mismatch (...)\<close>,
  \<open>prefix mismatch (...)\<close>, \<open>checkpoint is more than 24 hours old\<close>,
  \<open>invalid checkpoint timestamp\<close>, \<open>CSV file was modified externally since last
  checkpoint\<close> and \<open>corrupted checkpoint file (...)\<close>.
\<close>

datatype resume_rejection =
    NoCheckpoint
  | BucketMismatch
  | PrefixMismatch
  | TooOld
  | InvalidTimestamp
  | CsvModified
  | Corrupted

text \<open>The check of the age: \<open>None\<close> when it passes or is skipped.\<close>

definition check_age :: "int \<Rightarrow> (string \<times> json) list \<Rightarrow> resume_rejection option" where
  "check_age now state =
     (if truthy (dict_get state ''timestamp'') then
        (case dict_get state ''timestamp'' of
           JStr s \<Rightarrow>
             (case fromisoformat s of
                None \<Rightarrow> Some InvalidTimestamp
              | Some checkpoint_time \<Rightarrow>
                  if now > checkpoint_time + hours24 then Some TooOld else None)
         | _ \<Rightarrow> Some InvalidTimestamp)
      else None)"

text \<open>
  \<open>set(state.get('processed_keys', []))\<close>: \<open>None\<close> is the \<open>TypeError\<close> of a value that
  cannot be iterated or of a member that cannot be hashed. Members that are numbers,
  booleans or \<open>null\<close> are never equal to a dedup identity and are not kept. A text is
  iterated by its characters (here: its bytes), an object by its names.
\<close>

fun hashable :: "json \<Rightarrow> bool" where
  "hashable (JArr xs) = False"
| "hashable (JObj kvs) = False"
| "hashable _ = True"

fun str_members :: "json list \<Rightarrow> string list" where
  "str_members [] = []"
| "str_members (JStr s # xs) = s # str_members xs"
| "str_members (x # xs) = str_members xs"

definition loaded_keys :: "(string \<times> json) list \<Rightarrow> string set option" where
  "loaded_keys state =
     (case lookup state ''processed_keys'' of
        None \<Rightarrow> Some {}
      | Some (JArr xs) \<Rightarrow> if list_all hashable xs then Some (set (str_members xs)) else None
      | Some (JStr s) \<Rightarrow> Some (set (map (\<lambda>c. [c]) s))
      | Some (JObj kvs) \<Rightarrow> Some (set (map fst kvs))
      | Some _ \<Rightarrow> None)"

text \<open>\<open>state.get(k, dflt)\<close>: the value found is taken as it is, whatever its type.\<close>

definition state_get :: "(string \<times> json) list \<Rightarrow> string \<Rightarrow> json \<Rightarrow> json" where
  "state_get state k dflt = (case lookup state k of None \<Rightarrow> dflt | Some v \<Rightarrow> v)"

text \<open>
  The check of the output file's modification time, \<open>if state.get('csv_mtime') and
  os.path.exists(output_file)\<close>. \<open>Corrupted\<close> is the \<open>TypeError\<close> or \<open>OverflowError\<close> of
  the subtraction, caught by the \<open>except Exception\<close> of the function.
\<close>

definition check_csv_mtime :: "real option \<Rightarrow> (string \<times> json) list \<Rightarrow> resume_rejection option" where
  "check_csv_mtime current state =
     (case current of
        None \<Rightarrow> None
      | Some current_mtime \<Rightarrow>
          if truthy (dict_get state ''csv_mtime'') then
            (case float_operand (dict_get state ''csv_mtime'') of
               Inl e \<Rightarrow> Some Corrupted
             | Inr m \<Rightarrow> if exceeds_tolerance current_mtime m then Some CsvModified else None)
          else None)"

text \<open>\<open>f"{state.get('total_items', 0):,}"\<close> raises unless the value is a number.\<close>

fun is_number :: "json \<Rightarrow> bool" where
  "is_number (JInt i) = True"
| "is_number (JFloat f) = True"
| "is_number (JBool b) = True"
| "is_number JNull = False"
| "is_number (JStr s) = False"
| "is_number (JArr xs) = False"
| "is_number (JObj kvs) = False"

definition total_items_prints :: "(string \<times> json) list \<Rightarrow> bool" where
  "total_items_prints state =
     (case lookup state ''total_items'' of None \<Rightarrow> True | Some v \<Rightarrow> is_number v)"

text \<open>
  \<open>_load_resume_state\<close>: the exporter with the attributes the call has set, and the
  rejection or the loaded dictionary.
\<close>

definition load_resume_state ::
  "int \<Rightarrow> real \<Rightarrow> exporter \<Rightarrow> fsys \<Rightarrow> string \<Rightarrow> string option \<Rightarrow> string \<Rightarrow>
   exporter \<times> (resume_rejection + (string \<times> json) list)" where
  "load_resume_state now clock self fs bucket prefix output_file =
     (case resume_state_file self of
        None \<Rightarrow> (self, Inl NoCheckpoint)
      | Some path \<Rightarrow>
          (case state_files fs path of
             None \<Rightarrow> (self, Inl NoCheckpoint)
           | Some NotJson \<Rightarrow> (self, Inl Corrupted)
           | Some (Json (JObj state)) \<Rightarrow>
               if dict_get state ''bucket_name'' \<noteq> JStr bucket then (self, Inl BucketMismatch)
               else if dict_get state ''prefix'' \<noteq> json_of_optstr prefix then (self, Inl PrefixMismatch)
               else
                 (case check_age now state of
                    Some r \<Rightarrow> (self, Inl r)
                  | None \<Rightarrow>
                      (case loaded_keys state of
                         None \<Rightarrow> (self, Inl Corrupted)
                       | Some keys \<Rightarrow>
                           let self1 = self\<lparr>processed_keys := keys,
                                 original_start_time :=
                                   Some (state_get state ''original_start_time'' (JFloat (Finite clock))),
                                 cumulative_runtime :=
                                   Some (state_get state ''cumulative_runtime'' (JInt 0))\<rparr>
                           in (case check_csv_mtime (getmtime fs output_file) state of
                                 Some r \<Rightarrow> (self1, Inl r)
                               | None \<Rightarrow>
                                   if total_items_prints state then (self1, Inr state)
                                   else (self1, Inl Corrupted))))
           | Some (Json _) \<Rightarrow> (self, Inl Corrupted)))"

section \<open>The Page Fetcher\<close>

record batch_result =
  batch_count :: int
  is_truncated :: bool
  result_key_marker :: "string option"
  result_version_marker :: "string option"
  error :: "string option"
  retry_after_refresh :: bool

text \<open>\<open>if key_marker: params['KeyMarker'] = key_marker\<close>: an empty marker is not sent.\<close>

definition marker_param :: "string option \<Rightarrow> string option" where
  "marker_param m = (case m of None \<Rightarrow> None | Some s \<Rightarrow> if s = [] then None else Some s)"

definition error_msg :: "string \<Rightarrow> string \<Rightarrow> string" where
  "error_msg bucket_nm error_code =
     (if error_code = ''NoSuchBucket'' then
        ''Bucket '' @ [CHR 0x27] @ bucket_nm @ [CHR 0x27]
          @ '' does not exist or you don'' @ [CHR 0x27] @ ''t have access to it''
      else if error_code = ''AccessDenied'' then
        ''Access denied to bucket '' @ [CHR 0x27] @ bucket_nm @ [CHR 0x27]
          @ ''. Check your permissions.''
      else if error_code = ''ExpiredToken'' then
        ''AWS credentials have expired. Please refresh your credentials and retry.''
      else if error_code = ''InvalidToken'' then
        ''AWS credentials are invalid. Please check your credentials and retry.''
      else if error_code = ''TokenRefreshRequired'' then
        ''AWS token refresh required. Please refresh your credentials and retry.''
      else ''AWS Error ['' @ error_code @ '']: Access or configuration issue'')"

text \<open>How a call of \<open>process_batch\<close> ends: it returns its dictionary; \<open>KeyboardInterrupt\<close>
  leaves it, which \<open>except Exception\<close> does not catch; or it waits in a \<open>put\<close> for
  ever.\<close>

datatype batch_end =
    BatchResult batch_result
  | KeyboardInterrupted
  | PutBlocked

text \<open>
  \<open>process_batch\<close>. The first argument is the call \<open>list_object_versions\<close> of this batch
  as a function of the two markers sent (bucket, prefix and \<open>MaxKeys\<close> are the same in
  every call of a job). The second tells whether the writer thread is in its loop; when it
  has ended at its start, nothing is ever taken out of the queue, which holds the items of
  \<open>write_queue\<close> and has room for 10.
\<close>

definition process_batch ::
  "(string option \<Rightarrow> string option \<Rightarrow> api_result) \<Rightarrow> bool \<Rightarrow> exporter \<Rightarrow> string \<Rightarrow>
   string option \<Rightarrow> string option \<Rightarrow> bool \<Rightarrow> bool \<Rightarrow> exporter \<times> batch_end" where
  "process_batch api writer_running self bucket_nm key_marker version_marker bops url =
     (case api (marker_param key_marker) (marker_param version_marker) of
        KeyboardInterrupt \<Rightarrow> (self, KeyboardInterrupted)
      | Response r \<Rightarrow>
          (let room = (if writer_running then None else Some (10 - length (write_queue self)))
           in case process_entries room (version_row bucket_nm bops url) (Versions r)
                     (processed_keys self, [], 0) of
                (acc, blocked) \<Rightarrow>
                  (case (if blocked then (acc, True)
                         else process_entries room (delete_marker_row bucket_nm bops url)
                                (DeleteMarkers r) acc) of
                     ((seen, puts, n), blocked') \<Rightarrow>
                       (self\<lparr>processed_keys := seen, write_queue := write_queue self @ map Some puts\<rparr>,
                        if blocked' then PutBlocked
                        else BatchResult
                               \<lparr>batch_count = int n, is_truncated = IsTruncated r,
                                result_key_marker = NextKeyMarker r,
                                result_version_marker = NextVersionIdMarker r,
                                error = None, retry_after_refresh = False\<rparr>)))
      | ClientError error_code \<Rightarrow>
          (self\<lparr>error_count := error_count self + 1\<rparr>,
           BatchResult
             \<lparr>batch_count = 0, is_truncated = False, result_key_marker = None,
              result_version_marker = None, error = Some (error_msg bucket_nm error_code),
              retry_after_refresh =
                (error_code \<in> set [''ExpiredToken'', ''InvalidToken'', ''TokenRefreshRequired''])\<rparr>)
      | OtherException text \<Rightarrow>
          (self\<lparr>error_count := error_count self + 1\<rparr>,
           BatchResult
             \<lparr>batch_count = 0, is_truncated = False, result_key_marker = None,
              result_version_marker = None, error = Some text,
              retry_after_refresh = False\<rparr>))"

section \<open>The Orchestrator\<close>

record config =
  bucket :: string
  prefix :: "string option"
  output_file :: string
  write_headers :: bool
  enable_resume :: bool
  bops_compatible :: bool
  url_encode :: bool

text \<open>
  What the world gives to one turn of the \<open>while True\<close> loop of \<open>export_versions\<close>: the
  listing call, the readings of \<open>datetime.now()\<close> and \<open>time.time()\<close>, the modification
  time of the output file as the writer thread has left it by then (\<open>None\<close>: no file yet),
  whether a refresh of the credentials succeeds (\<open>sso_refreshed or
  self._refresh_credentials_and_retry()\<close>), and how a write of the state file ends.
\<close>

record tick =
  list_object_versions :: "string option \<Rightarrow> string option \<Rightarrow> api_result"
  datetime_now :: int
  time_time :: real
  output_mtime :: "real option"
  refresh_ok :: bool
  state_write :: save_outcome

text \<open>
  The local variables of \<open>export_versions\<close> in its loop, with \<open>self\<close> and the files.
  \<open>requests\<close> records the markers of the calls made, oldest first.
\<close>

record run =
  me :: exporter
  files :: fsys
  next_key_marker :: "string option"
  next_version_marker :: "string option"
  batch_num :: int
  total_items :: int
  requests :: "(string option \<times> string option) list"

text \<open>How the loop is left: by \<open>break\<close>, by \<open>sys.exit(1)\<close>, by \<open>KeyboardInterrupt\<close>, or
  by the exception of a \<open>_save_resume_state\<close>; or it is not left: the thread waits in a
  \<open>put\<close> for ever.\<close>

datatype loop_end = Complete | SysExit | Interrupted | Raised | Blocked

text \<open>
  \<open>self.processed_keys = set(list(self.processed_keys)[-10000:])\<close> when the set has
  200000 members or more. \<open>set_iteration\<close> is the order in which \<open>list(...)\<close> goes
  through the set: Python follows the set's table of hashes, and the order is given here
  as a function of the set.
\<close>

definition trim_processed_keys :: "(string set \<Rightarrow> string list) \<Rightarrow> string set \<Rightarrow> string set" where
  "trim_processed_keys set_iteration keys =
     (if 200000 \<le> int (card keys)
      then set (drop (nat (int (length (set_iteration keys)) - 10000)) (set_iteration keys))
      else keys)"

definition save_in_loop ::
  "(string set \<Rightarrow> string list) \<Rightarrow> config \<Rightarrow> tick \<Rightarrow> run \<Rightarrow> string option \<Rightarrow> string option \<Rightarrow> int \<Rightarrow>
   py_error + fsys" where
  "save_in_loop set_iteration cfg t r key_marker version_marker num =
     save_resume_state set_iteration (state_write t) (datetime_now t) (time_time t) (output_mtime t)
       (me r) (files r) (bucket cfg) (prefix cfg) key_marker version_marker num (total_items r)"

text \<open>\<open>_cleanup_resume_state\<close>; a failing \<open>os.remove\<close> only prints a warning.\<close>

definition cleanup_resume_state :: "bool \<Rightarrow> exporter \<Rightarrow> fsys \<Rightarrow> fsys" where
  "cleanup_resume_state remove_ok self fs =
     (case resume_state_file self of
        None \<Rightarrow> fs
      | Some path \<Rightarrow> if remove_ok then fs\<lparr>state_files := (state_files fs)(path := None)\<rparr> else fs)"

text \<open>
  A call of \<open>_save_resume_state\<close> in the loop, made when \<open>wanted\<close>: its exception leaves
  the loop, otherwise the turn goes on with the files it has left.
\<close>

definition saving ::
  "bool \<Rightarrow> py_error + fsys \<Rightarrow> run \<Rightarrow> (run \<Rightarrow> loop_end option \<times> run) \<Rightarrow> loop_end option \<times> run" where
  "saving wanted saved r continue =
     (if wanted
      then (case saved of Inl e \<Rightarrow> (Some Raised, r) | Inr fs \<Rightarrow> continue (r\<lparr>files := fs\<rparr>))
      else continue r)"

text \<open>
  One turn of the loop: \<open>None\<close> when the loop goes on (after a truncated page, or by
  \<open>continue\<close> after a refresh of the credentials), otherwise how it is left. After an
  error the state is saved before the recovery is tried and once more before
  \<open>sys.exit(1)\<close>.
\<close>

definition listing_turn ::
  "(string set \<Rightarrow> string list) \<Rightarrow> bool \<Rightarrow> bool \<Rightarrow> config \<Rightarrow> tick \<Rightarrow> run \<Rightarrow> loop_end option \<times> run" where
  "listing_turn set_iteration remove_ok writer_running cfg t r0 =
     (let r = r0\<lparr>batch_num := batch_num r0 + 1,
                 me := (me r0)\<lparr>current_batch_num := batch_num r0 + 1\<rparr>,
                 requests := requests r0 @ [(marker_param (next_key_marker r0),
                                            marker_param (next_version_marker r0))]\<rparr>
      in case process_batch (list_object_versions t) writer_running (me r) (bucket cfg)
                (next_key_marker r) (next_version_marker r) (bops_compatible cfg) (url_encode cfg) of
           (self1, PutBlocked) \<Rightarrow> (Some Blocked, r\<lparr>me := self1\<rparr>)
         | (self1, KeyboardInterrupted) \<Rightarrow>
             saving (enable_resume cfg)
               (save_in_loop set_iteration cfg t (r\<lparr>me := self1\<rparr>)
                  (next_key_marker r) (next_version_marker r) (batch_num r - 1))
               (r\<lparr>me := self1\<rparr>)
               (\<lambda>r1. (Some Interrupted, r1))
         | (self1, BatchResult result) \<Rightarrow>
             let r1 = r\<lparr>me := self1\<rparr> in
             if error result \<noteq> None \<and> error result \<noteq> Some [] then
               saving (enable_resume cfg)
                 (save_in_loop set_iteration cfg t r1 (next_key_marker r1)
                    (next_version_marker r1) (batch_num r1 - 1))
                 r1
                 (\<lambda>r2. if retry_after_refresh result \<and> refresh_ok t then (None, r2)
                       else saving (enable_resume cfg)
                              (save_in_loop set_iteration cfg t r2 (next_key_marker r2)
                                 (next_version_marker r2) (batch_num r2 - 1))
                              r2
                              (\<lambda>r3. (Some SysExit, r3)))
             else
               (let r2 = r1\<lparr>total_items := total_items r1 + batch_count result\<rparr>
                in saving (enable_resume cfg \<and> resume_state_file (me r2) \<noteq> None
                             \<and> batch_num r2 mod 20 = 0)
                     (save_in_loop set_iteration cfg t r2 (result_key_marker result)
                        (result_version_marker result) (batch_num r2))
                     r2
                     (\<lambda>r3.
                        let r4 = r3\<lparr>me := (if enable_resume cfg
                                            then (me r3)\<lparr>processed_keys :=
                                                   trim_processed_keys set_iteration (processed_keys (me r3))\<rparr>
                                            else me r3)\<rparr>
                        in if is_truncated result then
                             (None, r4\<lparr>next_key_marker := result_key_marker result,
                                       next_version_marker := result_version_marker result\<rparr>)
                           else
                             (Some Complete,
                              r4\<lparr>files := (if enable_resume cfg \<and> resume_state_file (me r4) \<noteq> None
                                             then cleanup_resume_state remove_ok (me r4) (files r4)
                                             else files r4)\<rparr>))))"

text \<open>The loop over the turns the world gives; \<open>None\<close> as the first component when the
  loop is still running after the last of them.\<close>

fun listing_loop ::
  "(string set \<Rightarrow> string list) \<Rightarrow> bool \<Rightarrow> bool \<Rightarrow> config \<Rightarrow> tick list \<Rightarrow> run \<Rightarrow> loop_end option \<times> run" where
  "listing_loop set_iteration remove_ok writer_running cfg [] r = (None, r)"
| "listing_loop set_iteration remove_ok writer_running cfg (t # ts) r =
     (case listing_turn set_iteration remove_ok writer_running cfg t r of
        (None, r') \<Rightarrow> listing_loop set_iteration remove_ok writer_running cfg ts r'
      | (Some e, r') \<Rightarrow> (Some e, r'))"

text \<open>\<open>_validate_bucket_name\<close>. In Python's \<open>re.match\<close> the final \<open>$\<close> also matches before
  a newline that ends the text.\<close>

fun has_dotdot :: "string \<Rightarrow> bool" where
  "has_dotdot (a # b # s) = ((a = CHR ''.'' \<and> b = CHR ''.'') \<or> has_dotdot (b # s))"
| "has_dotdot _ = False"

definition validate_bucket_name :: "string \<Rightarrow> bool" where
  "validate_bucket_name s =
     (let core = (if s \<noteq> [] \<and> last s = CHR 0x0A then butlast s else s)
      in 3 \<le> length core \<and> length core \<le> 63
         \<and> list_all (\<lambda>c. c \<in> set (''abcdefghijklmnopqrstuvwxyz'' @ ''0123456789'' @ ''.-'')) core
         \<and> hd s \<noteq> CHR ''.'' \<and> last s \<noteq> CHR ''.'' \<and> \<not> has_dotdot s)"

text \<open>
  How the writer thread starts: it reaches its loop; or its path check, \<open>makedirs\<close> or
  \<open>open\<close> raises; or \<open>open\<close> has made the file and \<open>writeheader\<close> raises. An exception
  reaches the outer handler of \<open>csv_writer_worker\<close>, whose \<open>sys.exit(1)\<close> ends the thread
  and nothing else.
\<close>

datatype writer_start = WriterRuns | DiesBeforeOpen | DiesAtHeader

text \<open>
  What the world gives to one call of \<open>export_versions\<close>, besides the turns of its loop:
  the function \<open>_generate_resume_state_filename\<close> (built from \<open>hashlib\<close> and \<open>os.path\<close>;
  only that it is a function of bucket, prefix and output file is used), the order in which
  Python iterates over a set, the result of \<open>_validate_file_path\<close>, the clock readings at
  the start, the answer typed at the \<open>Overwrite? (y/n)\<close> prompt, whether \<open>os.remove\<close> of
  the state file succeeds, how the writer thread starts, its schedule and what happens
  after its loop, the modification time its writes leave on the output file, and clock
  readings and write outcome for the save of the \<open>finally\<close> block and the summary.
\<close>

record world =
  generate_resume_state_filename :: "string \<Rightarrow> string option \<Rightarrow> string \<Rightarrow> string"
  iteration_order :: "string set \<Rightarrow> string list"
  path_valid :: bool
  start_now :: int
  start_clock :: real
  overwrite_answer :: string
  removal_ok :: bool
  loop_turns :: "tick list"
  writer_start :: writer_start
  writer_turns :: "(nat \<times> write_outcome) list"
  writer_last_write :: closing
  write_time :: real
  end_now :: int
  end_clock :: real
  end_state_write :: save_outcome

text \<open>
  How the call ends: the process exits with a status (\<open>0\<close> when \<open>export_versions\<close>
  returns or the prompt is answered with no, \<open>1\<close> after \<open>sys.exit(1)\<close>, \<open>KeyboardInterrupt\<close>
  or another exception, which \<open>main\<close> answers with \<open>sys.exit(1)\<close>); or the main thread
  waits in a \<open>put\<close> on the full queue, for ever unless the user interrupts it there, which
  is not followed; or the loop or the writer thread is still running when the turns given
  are used up; or the state file loaded holds markers or counters of other types than
  \<open>_save_resume_state\<close> writes, a case not followed here.
\<close>

datatype job_end = Exit int | Hangs | NotReturned | Unfollowed

text \<open>\<open>response.lower().startswith('y')\<close>\<close>

definition says_yes :: "string \<Rightarrow> bool" where
  "says_yes answer = (case answer of [] \<Rightarrow> False | c # _ \<Rightarrow> c = CHR ''y'' \<or> c = CHR ''Y'')"

text \<open>
  The set-up of the resume capability: \<open>Inl\<close> when the operation is cancelled at the
  prompt, otherwise \<open>self\<close>, the files and \<open>resume_state\<close> (the empty dictionary: \<open>[]\<close>).
  A loaded dictionary with a member named \<open>error\<close> counts as a rejection.
\<close>

definition resolve_resume ::
  "world \<Rightarrow> config \<Rightarrow> string \<Rightarrow> exporter \<Rightarrow> fsys \<Rightarrow>
   exporter + exporter \<times> fsys \<times> (string \<times> json) list" where
  "resolve_resume w cfg out self fs =
     (if enable_resume cfg then
        (let path = generate_resume_state_filename w (bucket cfg) (prefix cfg) out;
             self1 = self\<lparr>resume_state_file := Some path\<rparr>
         in case csv_files fs out of
              None \<Rightarrow>
                Inr (self1,
                     (if state_files fs path \<noteq> None \<and> removal_ok w
                      then fs\<lparr>state_files := (state_files fs)(path := None)\<rparr> else fs),
                     [])
            | Some existing \<Rightarrow>
                (case load_resume_state (start_now w) (start_clock w) self1 fs (bucket cfg)
                        (prefix cfg) out of
                   (self2, loaded) \<Rightarrow>
                     if (case loaded of Inl rejection \<Rightarrow> True
                         | Inr state \<Rightarrow> lookup state ''error'' \<noteq> None)
                     then (if says_yes (overwrite_answer w)
                           then Inr (self2\<lparr>processed_keys := {}\<rparr>, fs, [])
                           else Inl self2)
                     else Inr (self2, fs, (case loaded of Inl rejection \<Rightarrow> [] | Inr state \<Rightarrow> state))))
      else Inr (self, fs, []))"

text \<open>The markers and counters taken from a loaded dictionary, when they have the types
  \<open>_save_resume_state\<close> writes.\<close>

definition resume_fields ::
  "(string \<times> json) list \<Rightarrow> (string option \<times> string option \<times> int \<times> int) option" where
  "resume_fields state =
     (case (dict_get state ''next_key_marker'', dict_get state ''next_version_marker'',
            (case lookup state ''batch_num'' of None \<Rightarrow> JInt 0 | Some v \<Rightarrow> v),
            (case lookup state ''total_items'' of None \<Rightarrow> JInt 0 | Some v \<Rightarrow> v)) of
        (JNull, JNull, JInt b, JInt n) \<Rightarrow> Some (None, None, b, n)
      | (JNull, JStr v, JInt b, JInt n) \<Rightarrow> Some (None, Some v, b, n)
      | (JStr k, JNull, JInt b, JInt n) \<Rightarrow> Some (Some k, None, b, n)
      | (JStr k, JStr v, JInt b, JInt n) \<Rightarrow> Some (Some k, Some v, b, n)
      | _ \<Rightarrow> None)"

text \<open>
  The output file after the writer thread: opened with mode \<open>a\<close> or \<open>w\<close>, the header
  written unless appending or suppressed, then the write units.
\<close>

definition write_output :: "world \<Rightarrow> config \<Rightarrow> string \<Rightarrow> bool \<Rightarrow> writer \<Rightarrow> fsys \<Rightarrow> fsys" where
  "write_output w cfg out append_mode wr fs =
     (let kept = (case csv_files fs out of None \<Rightarrow> [] | Some (ls, m) \<Rightarrow> if append_mode then ls else []);
          header = (if write_headers cfg \<and> \<not> append_mode then [fieldnames_of (bops_compatible cfg)] else []);
          rows = concat (map (map writerow) (written wr));
          mtime = (case csv_files fs out of
                     None \<Rightarrow> write_time w
                   | Some (ls, m) \<Rightarrow> if append_mode \<and> rows = [] then m else write_time w)
      in fs\<lparr>csv_files := (csv_files fs)(out \<mapsto> (kept @ header @ rows, mtime))\<rparr>)"

text \<open>\<open>if not output_file: output_file = 's3_object_versions.csv'\<close>\<close>

definition output_path :: "config \<Rightarrow> string" where
  "output_path cfg = (if output_file cfg = [] then ''s3_object_versions.csv'' else output_file cfg)"

text \<open>
  \<open>export_versions\<close> under \<open>main\<close>, in three parts. The first runs up to the loop:
  \<open>Inl\<close> when the call ends before it (a \<open>ValueError\<close> of the validation, the
  cancellation at the prompt, or a state file not followed), otherwise \<open>append_mode\<close> and
  the variables at the start of the loop. The bucket versioning check and the reports only
  print and are left out.
\<close>

definition start_export ::
  "world \<Rightarrow> config \<Rightarrow> exporter \<Rightarrow> fsys \<Rightarrow> (job_end \<times> exporter \<times> fsys) + (bool \<times> run)" where
  "start_export w cfg self0 fs0 =
     (let self = self0\<lparr>session_start_time := start_clock w,
                   original_start_time :=
                     (case original_start_time self0 of
                        None \<Rightarrow> Some (JFloat (Finite (start_clock w))) | Some t \<Rightarrow> Some t),
                   cumulative_runtime :=
                     (case cumulative_runtime self0 of None \<Rightarrow> Some (JInt 0) | Some c \<Rightarrow> Some c)\<rparr>
      in if \<not> validate_bucket_name (bucket cfg) \<or> \<not> path_valid w then Inl (Exit 1, self, fs0)
         else
           (case resolve_resume w cfg (output_path cfg) self fs0 of
              Inl self1 \<Rightarrow> Inl (Exit 0, self1, fs0)
            | Inr (self1, fs1, resume_state) \<Rightarrow>
                let append_mode = (enable_resume cfg \<and> resume_state \<noteq> []);
                    seeded = (if append_mode
                              then check_existing_csv_for_resume
                                     (map_option fst (csv_files fs1 (output_path cfg)))
                                     (processed_keys self1)
                              else (processed_keys self1, 0));
                    self2 = self1\<lparr>processed_keys := fst seeded\<rparr>
                in case (if resume_state \<noteq> [] then resume_fields resume_state
                         else Some (None, None, 0, int (snd seeded))) of
                     None \<Rightarrow> Inl (Unfollowed, self2, fs1)
                   | Some (key_marker, version_marker, num, items) \<Rightarrow>
                       Inr (append_mode,
                            \<lparr>me = self2\<lparr>current_batch_num := num\<rparr>, files = fs1,
                             next_key_marker = key_marker, next_version_marker = version_marker,
                             batch_num = num, total_items = items, requests = []\<rparr>)))"

text \<open>
  The writer thread is in its loop unless it has ended at its start; the header is written
  only when headers are wanted and the file is not appended to. A thread that has ended
  at the header leaves the file \<open>open\<close> has made, without content.
\<close>

definition writer_running :: "world \<Rightarrow> config \<Rightarrow> bool \<Rightarrow> bool" where
  "writer_running w cfg append_mode =
     (case writer_start w of
        WriterRuns \<Rightarrow> True
      | DiesBeforeOpen \<Rightarrow> False
      | DiesAtHeader \<Rightarrow> \<not> (write_headers cfg \<and> \<not> append_mode))"

definition dead_writer_output :: "world \<Rightarrow> string \<Rightarrow> fsys \<Rightarrow> fsys" where
  "dead_writer_output w out fs =
     (case writer_start w of
        DiesAtHeader \<Rightarrow> fs\<lparr>csv_files := (csv_files fs)(out \<mapsto> ([], write_time w))\<rparr>
      | _ \<Rightarrow> fs)"

text \<open>
  The first two statements of the \<open>finally\<close> block: \<open>self.write_queue.put(None)\<close> and
  \<open>self.writer_thread.join()\<close>. A writer thread in its loop shares nothing with the loop of
  \<open>export_versions\<close> but the queue, and is run here on the items put; the result is the
  number of errors it has counted and the files it leaves. When the writer thread has
  ended at its start, the \<open>put\<close> waits for ever if the queue holds 10 items, and
  otherwise the \<open>join\<close> returns at once.
\<close>

definition join_writer :: "world \<Rightarrow> config \<Rightarrow> bool \<Rightarrow> run \<Rightarrow> job_end + nat \<times> fsys" where
  "join_writer w cfg append_mode r =
     (if writer_running w cfg append_mode then
        (case csv_writer_worker (writer_turns w) (writer_last_write w)
                (write_queue (me r) @ [None]) of
           None \<Rightarrow> Inl NotReturned
         | Some (thread, wr) \<Rightarrow>
             Inr (writer_errors wr,
                  write_output w cfg (output_path cfg) append_mode wr (files r)))
      else if 10 \<le> length (write_queue (me r)) then Inl Hangs
      else Inr (0, dead_writer_output w (output_path cfg) (files r)))"

text \<open>
  The summary after the \<open>finally\<close> block: \<open>total_runtime = getattr(self,
  'cumulative_runtime', 0) + session_runtime\<close> raises when the attribute is not a number,
  and \<open>int(total_runtime)\<close> when the sum is an infinity or \<open>NaN\<close>.
\<close>

definition summary_raises :: "world \<Rightarrow> exporter \<Rightarrow> bool" where
  "summary_raises w self =
     (case elapsed_runtime self (end_clock w) of
        Inl e \<Rightarrow> True
      | Inr (Finite x) \<Rightarrow> False
      | Inr f \<Rightarrow> True)"

text \<open>
  The last part is the \<open>finally\<close> block and the exit. A main thread that waits in a
  \<open>put\<close> of the loop never reaches it. Otherwise the sentinel is put, the writer thread is
  joined, and a state is saved if an error was counted. \<open>export_versions\<close> returns after
  \<open>break\<close> and the summary; \<open>sys.exit(1)\<close>, \<open>KeyboardInterrupt\<close> and the exception of a
  save or of the summary, which \<open>main\<close> answers with \<open>sys.exit(1)\<close>, give the status 1.
\<close>

definition finish_export ::
  "world \<Rightarrow> config \<Rightarrow> bool \<Rightarrow> loop_end \<Rightarrow> run \<Rightarrow> job_end \<times> exporter \<times> fsys" where
  "finish_export w cfg append_mode e r =
     (if e = Blocked then (Hangs, me r, dead_writer_output w (output_path cfg) (files r))
      else
        (case join_writer w cfg append_mode r of
           Inl stuck \<Rightarrow>
             (stuck, me r,
              if writer_running w cfg append_mode then files r
              else dead_writer_output w (output_path cfg) (files r))
         | Inr (errors, fs2) \<Rightarrow>
             let self3 = (me r)\<lparr>write_queue := write_queue (me r) @ [None],
                                error_count := error_count (me r) + errors\<rparr>
             in case (if enable_resume cfg \<and> 0 < error_count self3
                      then save_resume_state (iteration_order w) (end_state_write w)
                             (end_now w) (end_clock w) (getmtime fs2 (output_path cfg)) self3 fs2
                             (bucket cfg) (prefix cfg) (next_key_marker r)
                             (next_version_marker r) (current_batch_num self3) (total_items r)
                      else Inr fs2) of
                  Inl raised \<Rightarrow> (Exit 1, self3, fs2)
                | Inr fs3 \<Rightarrow>
                    (Exit (if e = Complete \<and> \<not> summary_raises w self3 then 0 else 1),
                     self3, fs3)))"

definition export_versions :: "world \<Rightarrow> config \<Rightarrow> exporter \<Rightarrow> fsys \<Rightarrow> job_end \<times> exporter \<times> fsys" where
  "export_versions w cfg self0 fs0 =
     (case start_export w cfg self0 fs0 of
        Inl ended \<Rightarrow> ended
      | Inr (append_mode, r0) \<Rightarrow>
          (case listing_loop (iteration_order w) (removal_ok w)
                  (writer_running w cfg append_mode) cfg (loop_turns w) r0 of
             (None, r) \<Rightarrow> (NotReturned, me r, files r)
           | (Some e, r) \<Rightarrow> finish_export w cfg append_mode e r))"

section \<open>A small container and its runs\<close>

text \<open>
  A container without versioning that holds the keys \<open>a b\<close> and \<open>a+b\<close>, listed in two
  pages of one record each; the listing call is a function of the key marker.
\<close>

definition object_entry :: "string \<Rightarrow> entry" where
  "object_entry k = \<lparr>Key = k, VersionId = ''null'', IsLatest = True, Size = 1,
     LastModified = ''2024-01-01T00:00:00+00:00'', StorageClass = None, ETag = None\<rparr>"

definition first_page :: response where
  "first_page = \<lparr>Versions = [object_entry ''a b''], DeleteMarkers = [], IsTruncated = True,
     NextKeyMarker = Some ''a b'', NextVersionIdMarker = Some ''null''\<rparr>"

definition second_page :: response where
  "second_page = \<lparr>Versions = [object_entry ''a+b''], DeleteMarkers = [], IsTruncated = False,
     NextKeyMarker = None, NextVersionIdMarker = None\<rparr>"

definition two_pages :: "string option \<Rightarrow> string option \<Rightarrow> api_result" where
  "two_pages key_marker version_marker =
     (if key_marker = None then Response first_page else Response second_page)"

definition interrupted_call :: "string option \<Rightarrow> string option \<Rightarrow> api_result" where
  "interrupted_call key_marker version_marker = KeyboardInterrupt"

text \<open>A turn of the loop at a given second, and a world whose loop has the given turns,
  whose writer thread starts, and whose output file and state file are written without
  failure.\<close>

definition turn_at :: "int \<Rightarrow> (string option \<Rightarrow> string option \<Rightarrow> api_result) \<Rightarrow> tick" where
  "turn_at seconds api = \<lparr>list_object_versions = api, datetime_now = seconds * 1000000,
     time_time = of_int seconds, output_mtime = Some (of_int seconds), refresh_ok = False,
     state_write = Saved\<rparr>"

definition world_at :: "int \<Rightarrow> tick list \<Rightarrow> world" where
  "world_at seconds turns =
     \<lparr>generate_resume_state_filename = (\<lambda>b p out. ''out_bkt_0a1b2c3d.json''),
      iteration_order = (\<lambda>S. filter (\<lambda>x. x \<in> S) [''a b-null'', ''a+b-null'']),
      path_valid = True, start_now = seconds * 1000000, start_clock = of_int seconds,
      overwrite_answer = ''n'', removal_ok = True, loop_turns = turns,
      writer_start = WriterRuns,
      writer_turns = [(10, WriteOk), (10, WriteOk)], writer_last_write = Closes,
      write_time = of_int seconds + 1, end_now = seconds * 1000000 + 1000000,
      end_clock = of_int seconds + 1, end_state_write = Saved\<rparr>"

definition default_config :: config where
  "default_config = \<lparr>bucket = ''bkt'', prefix = None, output_file = ''out.csv'',
     write_headers = True, enable_resume = True, bops_compatible = False, url_encode = True\<rparr>"

text \<open>\<open>S3VersionsExporter()\<close> after \<open>__init__\<close>, and a directory without files.\<close>

definition new_exporter :: exporter where
  "new_exporter = \<lparr>processed_keys = {}, write_queue = [], error_count = 0,
     resume_state_file = None, current_batch_num = 0, original_start_time = None,
     cumulative_runtime = None, session_start_time = 0\<rparr>"

definition no_files :: fsys where
  "no_files = \<lparr>csv_files = Map.empty, state_files = Map.empty\<rparr>"

text \<open>The exit status of a call and the \<open>(key_name, version_id)\<close> pairs of the rows of an
  output file, read as \<open>csv.DictReader\<close> reads them.\<close>

definition exit_status :: "job_end \<times> exporter \<times> fsys \<Rightarrow> job_end" where
  "exit_status res = fst res"

definition files_after :: "job_end \<times> exporter \<times> fsys \<Rightarrow> fsys" where
  "files_after res = snd (snd res)"

definition key_rows :: "fsys \<Rightarrow> string \<Rightarrow> (string \<times> string) list" where
  "key_rows fs out =
     (case csv_files fs out of
        None \<Rightarrow> []
      | Some (ls, m) \<Rightarrow>
          (case dict_reader ls of (names, rest) \<Rightarrow>
             map (\<lambda>l. (row_get names l ''key_name'', row_get names l ''version_id'')) rest))"

text \<open>One run without interruption; a run interrupted during the second call; and the
  run started an hour later with the same parameters on the files the second has left.\<close>

definition uninterrupted_run :: "job_end \<times> exporter \<times> fsys" where
  "uninterrupted_run =
     export_versions
       (world_at 1700000000 [turn_at 1700000000 two_pages, turn_at 1700000000 two_pages])
       default_config new_exporter no_files"

definition interrupted_run :: "job_end \<times> exporter \<times> fsys" where
  "interrupted_run =
     export_versions
       (world_at 1700000000 [turn_at 1700000000 two_pages, turn_at 1700000000 interrupted_call])
       default_config new_exporter no_files"

definition resumed_run :: "job_end \<times> exporter \<times> fsys" where
  "resumed_run =
     export_versions
       (world_at 1700003600 [turn_at 1700003600 two_pages, turn_at 1700003600 two_pages])
       default_config new_exporter (files_after interrupted_run)"

definition exporter_after :: "job_end \<times> exporter \<times> fsys \<Rightarrow> exporter" where
  "exporter_after res = fst (snd res)"

text \<open>The run without interruption on a disk where every write of a row to the output
  file fails, in the loop of the writer thread and after it.\<close>

definition failing_disk :: world where
  "failing_disk =
     (world_at 1700000000 [turn_at 1700000000 two_pages, turn_at 1700000000 two_pages])
       \<lparr>writer_turns := [(10, WriteFails 0), (10, WriteFails 0)],
        writer_last_write := RowFails 0\<rparr>"

definition failing_disk_run :: "job_end \<times> exporter \<times> fsys" where
  "failing_disk_run = export_versions failing_disk default_config new_exporter no_files"

section \<open>Sequences of pages\<close>

text \<open>A turn serves a page when its listing call returns that page whatever markers are
  sent; \<open>serve\<close> is such a call. \<open>cursors_sent\<close> lists the markers of the calls that
  start at a cursor and go on from the markers of each of the pages.\<close>

definition serves :: "tick \<Rightarrow> response \<Rightarrow> bool" where
  "serves t p = (\<forall>k v. list_object_versions t k v = Response p)"

definition serve :: "response \<Rightarrow> string option \<Rightarrow> string option \<Rightarrow> api_result" where
  "serve p key_marker version_marker = Response p"

definition cursors_sent ::
  "string option \<Rightarrow> string option \<Rightarrow> response list \<Rightarrow> (string option \<times> string option) list" where
  "cursors_sent key_marker version_marker pages =
     (marker_param key_marker, marker_param version_marker)
     # map (\<lambda>p. (marker_param (NextKeyMarker p), marker_param (NextVersionIdMarker p))) pages"

section \<open>Identities in the order of their marking\<close>



section \<open>The rejection conditions as the specification words them\<close>

text \<open>The state is older than 24 hours; the modification time of the output file
  differs from the recorded fingerprint by more than 10 seconds.\<close>

definition stale :: "int \<Rightarrow> (string \<times> json) list \<Rightarrow> bool" where
  "stale now state =
     (case dict_get state ''timestamp'' of
        JStr s \<Rightarrow> (case fromisoformat s of None \<Rightarrow> False | Some t \<Rightarrow> now > t + hours24)
      | _ \<Rightarrow> False)"

definition fingerprint_differs :: "real option \<Rightarrow> (string \<times> json) list \<Rightarrow> bool" where
  "fingerprint_differs current state =
     (case current of
        None \<Rightarrow> False
      | Some c \<Rightarrow>
          (case dict_get state ''csv_mtime'' of
             JFloat (Finite m) \<Rightarrow> \<bar>c - m\<bar> > 10
           | JInt i \<Rightarrow> \<bar>c - of_int i\<bar> > 10
           | _ \<Rightarrow> False))"

text \<open>
  A state written on 14 November 2023 for the bucket \<open>bkt\<close> with a given fingerprint, and
  the files of a job whose state file holds given content and whose output file was last
  modified at 22:13:20 of that day.
\<close>

definition state_with_fingerprint :: "real option \<Rightarrow> (string \<times> json) list" where
  "state_with_fingerprint mtime =
     checkpoint_state (\<lambda>S. []) 1700000000000000 1700000000 mtime
       (new_exporter\<lparr>resume_state_file := Some ''s.json''\<rparr>) ''bkt'' None
       (Some ''a b'') (Some ''null'') 1 1 (Finite 1700000000)"

definition job_files :: "file_content \<Rightarrow> fsys" where
  "job_files content =
     \<lparr>csv_files = [''out.csv'' \<mapsto> ([fieldnames_of False], 1700000000)],
      state_files = [''s.json'' \<mapsto> content]\<rparr>"

text \<open>\<open>self.processed_keys\<close> after the two loops of \<open>process_batch\<close> over a page.\<close>

definition keys_after_batch :: "config \<Rightarrow> response \<Rightarrow> string set \<Rightarrow> string set" where
  "keys_after_batch cfg p keys =
     fst (fst (process_entries None
                 (delete_marker_row (bucket cfg) (bops_compatible cfg) (url_encode cfg))
                 (DeleteMarkers p)
                 (fst (process_entries None
                         (version_row (bucket cfg) (bops_compatible cfg) (url_encode cfg))
                         (Versions p) (keys, [], 0)))))"

section \<open>A writer thread that cannot open its file\<close>

text \<open>
  A container of eleven objects, listed in one page, and the run with the default settings
  in a directory where \<open>open(output_file, 'w', ...)\<close> raises: the writer thread ends at its
  start. \<open>fresh_loop\<close> holds the variables of \<open>export_versions\<close> at the start of the loop
  of a run that resumes nothing.
\<close>

definition eleven_objects :: response where
  "eleven_objects =
     \<lparr>Versions = map object_entry [''k00'', ''k01'', ''k02'', ''k03'', ''k04'', ''k05'', ''k06'',
                                    ''k07'', ''k08'', ''k09'', ''k10''],
      DeleteMarkers = [], IsTruncated = False, NextKeyMarker = None,
      NextVersionIdMarker = None\<rparr>"

definition fresh_loop :: run where
  "fresh_loop = \<lparr>me = new_exporter, files = no_files, next_key_marker = None,
     next_version_marker = None, batch_num = 0, total_items = 0, requests = []\<rparr>"

definition dead_writer_run :: "job_end \<times> exporter \<times> fsys" where
  "dead_writer_run =
     export_versions
       ((world_at 1700000000 [turn_at 1700000000 (serve eleven_objects)])
          \<lparr>writer_start := DiesBeforeOpen\<rparr>)
       default_config new_exporter no_files"

section \<open>Runtime figures that are numbers\<close>

text \<open>The sum \<open>getattr(self, 'cumulative_runtime', 0) + ...\<close> of \<open>_save_resume_state\<close> and
  of the summary does not raise: the attribute is a number within the range of the
  doubles.\<close>

definition runtime_adds :: "exporter \<Rightarrow> bool" where
  "runtime_adds self =
     (case float_operand (case cumulative_runtime self of None \<Rightarrow> JInt 0 | Some v \<Rightarrow> v) of
        Inl e \<Rightarrow> False | Inr f \<Rightarrow> True)"

section \<open>Verified properties\<close>

subsection \<open>Key encoding\<close>

lemma hex_digit_not_space: "hex_digit n \<noteq> CHR '' ''"
proof -
  have "hex_digit n \<in> set ''0123456789ABCDEF''"
    unfolding hex_digit_def by (rule nth_mem) simp
  then show ?thesis by auto
qed

lemma space_not_always_safe: "CHR '' '' \<notin> always_safe"
  by (simp add: always_safe_def)

lemma quoter_slash: "quoter ''/'' c = spec_escape c"
  by (auto simp: quoter_def spec_escape_def)

lemma quoter_slash_space:
  "map (\<lambda>c. if c = CHR '' '' then CHR ''+'' else c) (quoter (''/'' @ '' '') c)
     = (if c = CHR '' '' then ''+'' else spec_escape c)"
  by (auto simp: quoter_def spec_escape_def hex_digit_not_space space_not_always_safe)

lemma quote_no_space:
  "CHR '' '' \<notin> set s \<Longrightarrow>
   quote_from_bytes s ''/'' = concat (map (\<lambda>c. if c = CHR '' '' then ''+'' else spec_escape c) s)"
  by (induction s) (auto simp: quote_from_bytes_def quoter_slash)

lemma quote_space:
  "map (\<lambda>c. if c = CHR '' '' then CHR ''+'' else c) (quote_from_bytes s (''/'' @ '' ''))
     = concat (map (\<lambda>c. if c = CHR '' '' then ''+'' else spec_escape c) s)"
proof (induction s)
  case Nil
  show ?case by (simp add: quote_from_bytes_def)
next
  case (Cons a s)
  have "map (\<lambda>c. if c = CHR '' '' then CHR ''+'' else c) (quote_from_bytes (a # s) (''/'' @ '' ''))
      = map (\<lambda>c. if c = CHR '' '' then CHR ''+'' else c) (quoter (''/'' @ '' '') a)
        @ map (\<lambda>c. if c = CHR '' '' then CHR ''+'' else c) (quote_from_bytes s (''/'' @ '' ''))"
    by (simp add: quote_from_bytes_def)
  then show ?case
    using Cons.IH by (simp only: quoter_slash_space list.map concat.simps)
qed

lemma quote_plus_char:
  "quote_plus s ''/'' = concat (map (\<lambda>c. if c = CHR '' '' then ''+'' else spec_escape c) s)"
  using quote_no_space [of s] quote_space [of s] by (simp add: quote_plus_def)

lemma quote_plus_no_space:
  "CHR '' '' \<notin> set s \<Longrightarrow> quote_plus s ''/'' = spec_percent_encode s"
  by (simp add: quote_plus_def quote_from_bytes_def spec_percent_encode_def quoter_slash [abs_def])

text \<open>
  Claim C8, as amended. With key encoding enabled, the \<open>key_name\<close> of every row, of a
  version and of a delete marker alike, is the key with each space written as a plus sign
  and every other byte that is neither unreserved nor the path separator written as a
  percent escape; with key encoding disabled it is the raw key.
\<close>

theorem key_name_encoding:
  "key_name (version_row b m True e)
     = concat (map (\<lambda>c. if c = CHR '' '' then ''+'' else spec_escape c) (Key e)) \<and>
   key_name (delete_marker_row b m True e)
     = concat (map (\<lambda>c. if c = CHR '' '' then ''+'' else spec_escape c) (Key e)) \<and>
   key_name (version_row b m False e) = Key e \<and>
   key_name (delete_marker_row b m False e) = Key e"
  by (simp add: version_row_def delete_marker_row_def encode_key_def quote_plus_char)

text \<open>
  Claim C8 as stated fails at the key \<open>a b\<close>: the row holds \<open>a+b\<close>, the percent-encoding
  of the key is \<open>a%20b\<close>.
\<close>

theorem key_name_not_percent_encoding:
  "key_name (version_row ''b'' False True
      \<lparr>Key = ''a b'', VersionId = ''v1'', IsLatest = True, Size = 0, LastModified = '''',
       StorageClass = None, ETag = None\<rparr>) \<noteq> spec_percent_encode ''a b''"
  by (simp add: version_row_def encode_key_def quote_plus_def quote_from_bytes_def quoter_def
      always_safe_def hex_digit_def spec_percent_encode_def spec_escape_def)

subsection \<open>Dedup identities\<close>


text \<open>
  Claim C9 at the records (key \<open>a-b\<close>, version \<open>c\<close>) and (key \<open>a\<close>, version \<open>b-c\<close>): both
  have the identity \<open>a-b-c\<close>, and \<open>process_batch\<close>, with the writer thread taking the rows
  from the queue, emits a row for the first only; the second is skipped as already
  processed.
\<close>

theorem dedup_identity_collision:
  "key_version ''a-b'' ''c'' = key_version ''a'' ''b-c'' \<and>
   process_entries None (version_row ''b'' True False)
     [\<lparr>Key = ''a-b'', VersionId = ''c'', IsLatest = True, Size = 0, LastModified = '''',
       StorageClass = None, ETag = None\<rparr>,
      \<lparr>Key = ''a'', VersionId = ''b-c'', IsLatest = True, Size = 0, LastModified = '''',
       StorageClass = None, ETag = None\<rparr>] ({}, [], 0)
   = (({''a-b-c''}, [Row ''b'' ''a-b'' ''c'' None], 1), False)"
  by (simp add: key_version_def version_row_def encode_key_def)

text \<open>What the scan of an output file adds for the rows written to it: the identity
  of each row's \<open>key_name\<close> column as the file object gives it back, which is the raw key
  only without key encoding.\<close>

lemma row_get_written:
  "row_get (map universal_newlines (fieldnames_of m)) (map universal_newlines (writerow r)) ''key_name''
     = universal_newlines (key_name r) \<and>
   row_get (map universal_newlines (fieldnames_of m)) (map universal_newlines (writerow r)) ''version_id''
     = universal_newlines (version_id r)"
  by (cases "extra r") (simp_all add: row_get_def fieldnames_of_def writerow_def)

lemma writerow_not_blank: "writerow r \<noteq> []"
  by (simp add: writerow_def)

lemma preseed_identity_of_written_rows:
  "csv_identities (fieldnames_of m # map writerow rows)
     = map (\<lambda>r. key_version (universal_newlines (key_name r)) (universal_newlines (version_id r))) rows"
  by (induction rows)
     (simp_all add: csv_identities_def dict_reader_def row_get_written writerow_not_blank)

text \<open>
  Claim C10 at the record (key \<open>a b\<close>, version \<open>v1\<close>) with key encoding enabled: scanning
  the file that holds its row adds the identity \<open>a+b-v1\<close>, the fetch computes \<open>a b-v1\<close>.
\<close>

theorem preseed_identity_differs:
  "csv_identities [fieldnames_of False,
       writerow (version_row ''b'' False True
         \<lparr>Key = ''a b'', VersionId = ''v1'', IsLatest = True, Size = 0, LastModified = '''',
          StorageClass = None, ETag = None\<rparr>)] = [''a+b-v1''] \<and>
   key_version ''a b'' ''v1'' = ''a b-v1''"
  by (simp add: csv_identities_def dict_reader_def fieldnames_of_def writerow_def row_get_def
      version_row_def encode_key_def quote_plus_def quote_from_bytes_def quoter_def
      always_safe_def hex_digit_def key_version_def str_bool_def strip_quotes_def)

subsection \<open>The Batch Writer's write units\<close>

lemma sorted_take_sort_key: "sorted (map key_name (take k (sort_key key_name buf)))"
proof -
  have "sorted (take k (map key_name (sort_key key_name buf)))"
    by (rule sorted_wrt_take) (rule sorted_sort_key)
  then show ?thesis by (simp add: take_map)
qed

lemma writer_turn_sorted: "units_sorted w \<Longrightarrow> units_sorted (writer_turn turn w)"
  by (auto simp: units_sorted_def writer_turn_def Let_def sorted_take_sort_key sorted_sort_key
      split: prod.splits write_outcome.splits)

lemma writer_loop_sorted:
  "units_sorted w \<Longrightarrow> writer_loop turns w = Some w' \<Longrightarrow> units_sorted w'"
proof (induction turns arbitrary: w)
  case Nil
  then show ?case by (simp split: if_splits)
next
  case (Cons turn turns)
  show ?case
  proof (cases "\<not> stop_writer w \<or> queue w \<noteq> []")
    case True
    then have "writer_loop turns (writer_turn turn w) = Some w'"
      using Cons.prems(2) by simp
    then show ?thesis
      using Cons.IH writer_turn_sorted [OF Cons.prems(1)] by blast
  next
    case False
    then show ?thesis using Cons.prems by simp
  qed
qed

lemma write_remaining_sorted:
  "units_sorted w \<Longrightarrow> units_sorted (snd (write_remaining last_write w))"
  by (auto simp: units_sorted_def write_remaining_def sorted_take_sort_key sorted_sort_key
      split: closing.splits)

text \<open>
  Claim C6. Whatever the queue delivers, however the collection is cut by the clock and
  whichever writes fail, every write unit the writer thread has appended to the file when
  it ends (the buffers written in the loop, the buffer written on the sentinel, the rows
  a failed write got out, and the buffer written after the loop) has its \<open>key_name\<close>
  values in non-decreasing order.
\<close>

theorem write_units_sorted:
  assumes "csv_writer_worker turns last_write items = Some (e, w)"
  shows "\<forall>u \<in> set (written w). sorted (map key_name u)"
proof -
  let ?w0 = "\<lparr>queue = items, sort_buffer = [], written = [], total_processed = 0,
              writer_errors = 0, stop_writer = False\<rparr>"
  obtain w1 where loop: "writer_loop turns ?w0 = Some w1"
    and fin: "write_remaining last_write w1 = (e, w)"
    using assms by (auto simp: csv_writer_worker_def)
  have "units_sorted ?w0" by (simp add: units_sorted_def)
  then have "units_sorted w1" using loop by (rule writer_loop_sorted)
  then have "units_sorted (snd (write_remaining last_write w1))"
    by (rule write_remaining_sorted)
  then show ?thesis using fin by (simp add: units_sorted_def list_all_iff)
qed

lemma writer_run_example:
  "csv_writer_worker [(1, WriteOk), (5, WriteFails 1), (3, WriteOk)] Closes
     [Some (Row ''b'' ''z'' ''1'' None), Some (Row ''b'' ''a'' ''2'' None), None]
   = Some (Returned,
       \<lparr>queue = [], sort_buffer = [Row ''b'' ''a'' ''2'' None, Row ''b'' ''z'' ''1'' None],
        written = [[Row ''b'' ''a'' ''2'' None],
                   [Row ''b'' ''a'' ''2'' None, Row ''b'' ''z'' ''1'' None]],
        total_processed = 2, writer_errors = 1, stop_writer = True\<rparr>)"
  by code_simp

theorem write_units_sorted_witness:
  "sorted (map key_name [Row ''b'' ''a'' ''2'' None]) \<and>
   sorted (map key_name [Row ''b'' ''a'' ''2'' None, Row ''b'' ''z'' ''1'' None])"
  using write_units_sorted [OF writer_run_example] by simp

subsection \<open>Decimal numerals\<close>

lemma digit_cases: "0 \<le> d \<Longrightarrow> d < 10 \<Longrightarrow> d \<in> {0, 1, 2, 3, 4, 5, 6, 7, 8, 9::int}"
  by (simp, arith)

lemma digit_char_props:
  assumes "0 \<le> d" "d < 10"
  shows "digit_char d \<in> set ''0123456789''" and "digit_val (digit_char d) = d"
  using digit_cases [OF assms] by (auto simp: digit_char_def digit_val_def)

lemma str_digits_digits:
  "0 \<le> n \<Longrightarrow> str_digits n \<noteq> [] \<and> list_all (\<lambda>c. c \<in> set ''0123456789'') (str_digits n)
     \<and> foldl (\<lambda>a c. 10 * a + digit_val c) 0 (str_digits n) = n"
proof (induction n rule: str_digits.induct)
  case (1 n)
  show ?case
  proof (cases "n < 10")
    case True
    then show ?thesis
      using digit_char_props [of n] "1.prems" by (subst (1 2 3) str_digits.simps) simp
  next
    case False
    then have ih: "str_digits (n div 10) \<noteq> [] \<and>
        list_all (\<lambda>c. c \<in> set ''0123456789'') (str_digits (n div 10)) \<and>
        foldl (\<lambda>a c. 10 * a + digit_val c) 0 (str_digits (n div 10)) = n div 10"
      using "1.IH" "1.prems" by simp
    have d: "digit_char (n mod 10) \<in> set ''0123456789''" "digit_val (digit_char (n mod 10)) = n mod 10"
      using digit_char_props [of "n mod 10"] by simp_all
    have eq: "str_digits n = str_digits (n div 10) @ [digit_char (n mod 10)]"
      using False by (subst str_digits.simps) simp
    show ?thesis
      unfolding eq using ih d by simp
  qed
qed

lemma fromisoformat_isoformat: "0 \<le> t \<Longrightarrow> fromisoformat (isoformat t) = Some t"
  using str_digits_digits [of t] by (simp add: fromisoformat_def isoformat_def str_int_def)


subsection \<open>Checkpoint round trip\<close>

lemma hashable_strs: "list_all hashable (map JStr xs)"
  by (induction xs) simp_all

lemma str_members_strs: "str_members (map JStr xs) = xs"
  by (induction xs) simp_all

lemma lookup_checkpoint_state:
  fixes it now clock mtime self bkt pfx km vm num items runtime
  defines "st \<equiv> checkpoint_state it now clock mtime self bkt pfx km vm num items runtime"
  shows "lookup st ''bucket_name'' = Some (JStr bkt)"
    and "lookup st ''prefix'' = Some (json_of_optstr pfx)"
    and "lookup st ''next_key_marker'' = Some (json_of_optstr km)"
    and "lookup st ''next_version_marker'' = Some (json_of_optstr vm)"
    and "lookup st ''batch_num'' = Some (JInt num)"
    and "lookup st ''total_items'' = Some (JInt items)"
    and "lookup st ''timestamp'' = Some (JStr (isoformat now))"
    and "lookup st ''csv_mtime'' = Some (case mtime of None \<Rightarrow> JNull | Some m \<Rightarrow> JFloat (Finite m))"
    and "lookup st ''processed_keys'' = Some (JArr (map JStr (it (processed_keys self))))"
    and "lookup st ''error'' = None"
  by (simp_all add: st_def checkpoint_state_def lookup_def)

lemma isoformat_not_empty: "0 \<le> t \<Longrightarrow> isoformat t \<noteq> []"
  using fromisoformat_isoformat [of t] by (auto simp: fromisoformat_def)

lemma check_age_fresh:
  "0 \<le> now \<Longrightarrow> now' \<le> now + hours24 \<Longrightarrow>
   check_age now' (checkpoint_state it now clock mtime self bkt pfx km vm num items runtime) = None"
  by (simp add: check_age_def dict_get_def lookup_checkpoint_state fromisoformat_isoformat
      isoformat_not_empty)

lemma loaded_keys_checkpoint:
  "loaded_keys (checkpoint_state it now clock mtime self bkt pfx km vm num items runtime)
     = Some (set (it (processed_keys self)))"
  by (simp add: loaded_keys_def lookup_checkpoint_state hashable_strs str_members_strs)

lemma check_csv_mtime_same:
  "check_csv_mtime mtime (checkpoint_state it now clock mtime self bkt pfx km vm num items runtime) = None"
  by (cases mtime) (simp_all add: check_csv_mtime_def dict_get_def lookup_checkpoint_state)

lemma total_items_prints_checkpoint:
  "total_items_prints (checkpoint_state it now clock mtime self bkt pfx km vm num items runtime)"
  by (simp add: total_items_prints_def lookup_checkpoint_state)

lemma resume_fields_checkpoint:
  "resume_fields (checkpoint_state it now clock mtime self bkt pfx km vm num items runtime)
     = Some (km, vm, num, items)"
  by (cases km; cases vm)
     (simp_all add: resume_fields_def dict_get_def lookup_checkpoint_state json_of_optstr_def)

text \<open>
  Claim C3. Let \<open>_save_resume_state\<close> return, having written the state file with a cursor
  and the counters at a time \<open>now\<close>. A later \<open>_load_resume_state\<close> for the same bucket,
  prefix and output file, which finds what was written in the state file, finds the output
  file with the modification time it had at the save, and runs no more than 24 hours after
  \<open>now\<close>, returns the dictionary written, and the markers and counters
  \<open>export_versions\<close> takes from it are those saved.
\<close>

theorem checkpoint_round_trip:
  assumes sf: "resume_state_file self = Some path" "resume_state_file self' = Some path"
    and saved: "save_resume_state it Saved now clock (getmtime fs out) self fs
                  bkt pfx km vm num items = Inr fs1"
               "state_files fs' path = state_files fs1 path"
    and unmodified: "getmtime fs' out = getmtime fs out"
    and time: "0 \<le> now" "now' \<le> now + hours24"
  shows "\<exists>runtime.
           elapsed_runtime self clock = Inr runtime
         \<and> snd (load_resume_state now' clock' self' fs' bkt pfx out)
           = Inr (checkpoint_state it now clock (getmtime fs out) self bkt pfx km vm num items runtime)
         \<and> resume_fields
             (checkpoint_state it now clock (getmtime fs out) self bkt pfx km vm num items runtime)
           = Some (km, vm, num, items)"
proof -
  obtain runtime where rt: "elapsed_runtime self clock = Inr runtime"
    using saved(1) sf(1) by (cases "elapsed_runtime self clock") (simp_all add: save_resume_state_def)
  let ?st = "checkpoint_state it now clock (getmtime fs out) self bkt pfx km vm num items runtime"
  have "fs1 = fs\<lparr>state_files := (state_files fs)(path \<mapsto> Json (JObj ?st))\<rparr>"
    using saved(1) sf(1) rt by (simp add: save_resume_state_def)
  then have content: "state_files fs' path = Some (Json (JObj ?st))"
    using saved(2) by simp
  have "snd (load_resume_state now' clock' self' fs' bkt pfx out) = Inr ?st"
    using sf(2) content unmodified
    by (simp add: load_resume_state_def dict_get_def lookup_checkpoint_state
        check_age_fresh [OF time] loaded_keys_checkpoint check_csv_mtime_same
        total_items_prints_checkpoint Let_def)
  then show ?thesis using rt by (simp add: resume_fields_checkpoint)
qed

text \<open>The save of a new exporter at the cursor (\<open>a b\<close>, \<open>null\<close>), in a directory
  without an output file.\<close>

lemma first_save:
  "save_resume_state (\<lambda>S. []) Saved 1700000000000000 1700000000 (getmtime no_files ''out.csv'')
     (new_exporter\<lparr>resume_state_file := Some ''s.json''\<rparr>) no_files ''bkt'' None
     (Some ''a b'') (Some ''null'') 1 1
   = Inr (no_files\<lparr>state_files := [''s.json'' \<mapsto> Json (JObj (state_with_fingerprint None))]\<rparr>)"
  by (simp add: save_resume_state_def elapsed_runtime_def add_float_def int_to_float_def
      new_exporter_def no_files_def getmtime_def state_with_fingerprint_def)

theorem checkpoint_round_trip_witness:
  "\<exists>runtime.
     elapsed_runtime (new_exporter\<lparr>resume_state_file := Some ''s.json''\<rparr>) 1700000000 = Inr runtime
   \<and> snd (load_resume_state 1700003600000000 1700003600
          (new_exporter\<lparr>resume_state_file := Some ''s.json''\<rparr>)
          (no_files\<lparr>state_files := [''s.json'' \<mapsto> Json (JObj (state_with_fingerprint None))]\<rparr>)
          ''bkt'' None ''out.csv'')
     = Inr (checkpoint_state (\<lambda>S. []) 1700000000000000 1700000000 (getmtime no_files ''out.csv'')
              (new_exporter\<lparr>resume_state_file := Some ''s.json''\<rparr>) ''bkt'' None
              (Some ''a b'') (Some ''null'') 1 1 runtime)
   \<and> resume_fields (checkpoint_state (\<lambda>S. []) 1700000000000000 1700000000
                       (getmtime no_files ''out.csv'')
                       (new_exporter\<lparr>resume_state_file := Some ''s.json''\<rparr>) ''bkt'' None
                       (Some ''a b'') (Some ''null'') 1 1 runtime)
     = Some (Some ''a b'', Some ''null'', 1, 1)"
proof -
  let ?self = "new_exporter\<lparr>resume_state_file := Some ''s.json''\<rparr>"
  let ?fs1 = "no_files\<lparr>state_files := [''s.json'' \<mapsto> Json (JObj (state_with_fingerprint None))]\<rparr>"
  have h1: "resume_state_file ?self = Some ''s.json''" by simp
  have h2: "state_files ?fs1 ''s.json'' = state_files ?fs1 ''s.json''" by simp
  have h3: "getmtime ?fs1 ''out.csv'' = getmtime no_files ''out.csv''"
    by (simp add: getmtime_def no_files_def)
  have h4: "(0::int) \<le> 1700000000000000" by simp
  have h5: "(1700003600000000::int) \<le> 1700000000000000 + hours24" by (simp add: hours24_def)
  show ?thesis by (rule checkpoint_round_trip [OF h1 h1 first_save h2 h3 h4 h5])
qed

subsection \<open>Interruption and resume\<close>

text \<open>
  Claim C1 at the container of the keys \<open>a b\<close> and \<open>a+b\<close>, with the default settings.
  The run without interruption exits with status 0 and leaves the rows of both objects.
  The run interrupted during its second call leaves the row of the first object and a
  checkpoint; the run resumed an hour later exits with status 0 and has added nothing:
  the row of the object \<open>a+b\<close> is missing from the output file.
\<close>

theorem resumed_run_omits_a_row:
  "exit_status uninterrupted_run = Exit 0 \<and>
   key_rows (files_after uninterrupted_run) ''out.csv'' = [(''a%2Bb'', ''null''), (''a+b'', ''null'')] \<and>
   exit_status interrupted_run = Exit 1 \<and>
   key_rows (files_after interrupted_run) ''out.csv'' = [(''a+b'', ''null'')] \<and>
   exit_status resumed_run = Exit 0 \<and>
   key_rows (files_after resumed_run) ''out.csv'' = [(''a+b'', ''null'')]"
  by code_simp

subsection \<open>The listing loop\<close>

text \<open>While the writer thread is in its loop no \<open>put\<close> waits for ever, and a save does
  not raise when the runtime figure is a number.\<close>

lemma never_blocked: "snd (process_entries None mk es acc) = False"
  by (induction "None :: nat option" mk es acc rule: process_entries.induct) simp_all

lemma runtime_adds_elapsed: "runtime_adds self \<Longrightarrow> \<exists>x. elapsed_runtime self t = Inr x"
  by (auto simp: runtime_adds_def elapsed_runtime_def add_float_def split: sum.splits pyfloat.splits)

lemma save_returns:
  "runtime_adds self \<Longrightarrow>
   \<exists>fs'. save_resume_state it outcome now clock mtime self fs bkt pfx km vm num items = Inr fs'"
  using runtime_adds_elapsed [of self clock]
  by (auto simp: save_resume_state_def split: option.splits save_outcome.splits)

lemma process_batch_response:
  assumes "api (marker_param km) (marker_param vm) = Response p"
  shows "\<exists>seen puts n.
           process_batch api True self b km vm bops url
             = (self\<lparr>processed_keys := seen, write_queue := write_queue self @ map Some puts\<rparr>,
                BatchResult \<lparr>batch_count = n, is_truncated = IsTruncated p,
                             result_key_marker = NextKeyMarker p,
                             result_version_marker = NextVersionIdMarker p,
                             error = None, retry_after_refresh = False\<rparr>)"
proof -
  obtain acc where a: "process_entries None (version_row b bops url) (Versions p) (processed_keys self, [], 0) = (acc, False)"
    using never_blocked [of "version_row b bops url" "Versions p" "(processed_keys self, [], 0)"]
    by (cases "process_entries None (version_row b bops url) (Versions p) (processed_keys self, [], 0)") auto
  obtain seen puts n where d: "process_entries None (delete_marker_row b bops url) (DeleteMarkers p) acc = ((seen, puts, n), False)"
    using never_blocked [of "delete_marker_row b bops url" "DeleteMarkers p" acc]
    by (cases "process_entries None (delete_marker_row b bops url) (DeleteMarkers p) acc") auto
  show ?thesis
    using assms a d by (simp add: process_batch_def) blast
qed

lemma listing_turn_response:
  assumes "serves t p" and "runtime_adds (me r)"
  shows "\<exists>r'. listing_turn it rm True cfg t r = ((if IsTruncated p then None else Some Complete), r')
           \<and> batch_num r' = batch_num r + 1
           \<and> requests r' = requests r @ [(marker_param (next_key_marker r),
                                           marker_param (next_version_marker r))]
           \<and> (IsTruncated p \<longrightarrow> next_key_marker r' = NextKeyMarker p
                                 \<and> next_version_marker r' = NextVersionIdMarker p)
           \<and> runtime_adds (me r')"
proof -
  let ?r = "r\<lparr>batch_num := batch_num r + 1,
               me := (me r)\<lparr>current_batch_num := batch_num r + 1\<rparr>,
               requests := requests r @ [(marker_param (next_key_marker r),
                                          marker_param (next_version_marker r))]\<rparr>"
  have api: "list_object_versions t (marker_param (next_key_marker ?r)) (marker_param (next_version_marker ?r)) = Response p"
    using assms(1) by (simp add: serves_def)
  obtain seen puts n where pb:
    "process_batch (list_object_versions t) True (me ?r) (bucket cfg) (next_key_marker ?r)
       (next_version_marker ?r) (bops_compatible cfg) (url_encode cfg)
     = ((me ?r)\<lparr>processed_keys := seen, write_queue := write_queue (me ?r) @ map Some puts\<rparr>,
        BatchResult \<lparr>batch_count = n, is_truncated = IsTruncated p,
                     result_key_marker = NextKeyMarker p,
                     result_version_marker = NextVersionIdMarker p,
                     error = None, retry_after_refresh = False\<rparr>)"
    using process_batch_response [where api = "list_object_versions t"
        and km = "next_key_marker ?r" and vm = "next_version_marker ?r" and p = p, OF api]
    by blast
  let ?self1 = "(me ?r)\<lparr>processed_keys := seen, write_queue := write_queue (me ?r) @ map Some puts\<rparr>"
  let ?r2 = "?r\<lparr>me := ?self1, total_items := total_items ?r + n\<rparr>"
  have adds: "runtime_adds (me ?r2)"
    using assms(2) by (simp add: runtime_adds_def)
  obtain fs' where sv: "save_in_loop it cfg t ?r2 (NextKeyMarker p) (NextVersionIdMarker p) (batch_num ?r2) = Inr fs'"
    using save_returns [OF adds] unfolding save_in_loop_def by blast
  show ?thesis
    unfolding listing_turn_def Let_def pb
    using sv assms(2) by (simp add: saving_def runtime_adds_def)
qed

text \<open>
  With the writer thread in its loop and a runtime figure that is a number: when the calls
  of the loop serve, one after the other, pages of which all but the last are truncated
  and the last is not, the loop is left by \<open>break\<close> at the last page, whatever turns would
  follow. It has made one call for each page (\<open>batch_num\<close> has grown by their number),
  the first with the markers it started from and each further one with the markers of the
  page before.
\<close>

lemma listing_loop_with_running_writer:
  assumes "list_all2 serves ts (ps @ [p])"
    and "list_all IsTruncated ps" and "\<not> IsTruncated p"
    and "runtime_adds (me r)"
  shows "\<exists>r'. listing_loop it rm True cfg (ts @ later) r = (Some Complete, r')
           \<and> batch_num r' = batch_num r + int (length ps) + 1
           \<and> requests r' = requests r @ cursors_sent (next_key_marker r) (next_version_marker r) ps"
  using assms
proof (induction ps arbitrary: ts r)
  case Nil
  then obtain t where ts: "ts = [t]" and t: "serves t p"
    by (auto simp: list_all2_Cons2)
  from listing_turn_response [OF t Nil.prems(4), of it rm cfg] Nil.prems(3)
  show ?case by (auto simp: ts cursors_sent_def)
next
  case (Cons q qs)
  then obtain t ts' where ts: "ts = t # ts'" and t: "serves t q"
    and rest: "list_all2 serves ts' (qs @ [p])"
    by (auto simp: list_all2_Cons2)
  have q: "IsTruncated q" and qs: "list_all IsTruncated qs"
    using Cons.prems(2) by simp_all
  obtain r1 where step: "listing_turn it rm True cfg t r = (None, r1)"
    and num: "batch_num r1 = batch_num r + 1"
    and req: "requests r1 = requests r @ [(marker_param (next_key_marker r),
                                          marker_param (next_version_marker r))]"
    and mk: "next_key_marker r1 = NextKeyMarker q" "next_version_marker r1 = NextVersionIdMarker q"
    and adds: "runtime_adds (me r1)"
    using listing_turn_response [OF t Cons.prems(4), of it rm cfg] q by auto
  obtain r' where loop: "listing_loop it rm True cfg (ts' @ later) r1 = (Some Complete, r')"
    and num': "batch_num r' = batch_num r1 + int (length qs) + 1"
    and req': "requests r' = requests r1 @ cursors_sent (next_key_marker r1) (next_version_marker r1) qs"
    using Cons.IH [OF rest qs Cons.prems(3) adds] by blast
  show ?case
    using step loop num num' req req' mk by (simp add: ts cursors_sent_def)
qed

lemma listing_loop_with_running_writer_example:
  "\<exists>r'. listing_loop (\<lambda>S. []) True True default_config
           [turn_at 1700000000 (serve first_page), turn_at 1700000000 (serve second_page)] fresh_loop
         = (Some Complete, r')
       \<and> batch_num r' = 2
       \<and> requests r' = [(None, None), (Some ''a b'', Some ''null'')]"
proof -
  have h1: "list_all2 serves
      [turn_at 1700000000 (serve first_page), turn_at 1700000000 (serve second_page)]
      ([first_page] @ [second_page])"
    by (simp add: serves_def turn_at_def serve_def)
  have h2: "list_all IsTruncated [first_page]" by (simp add: first_page_def)
  have h3: "\<not> IsTruncated second_page" by (simp add: second_page_def)
  have h4: "runtime_adds (me fresh_loop)"
    by (simp add: runtime_adds_def fresh_loop_def new_exporter_def int_to_float_def)
  show ?thesis
    using listing_loop_with_running_writer [OF h1 h2 h3 h4, of "\<lambda>S. []" True default_config "[]"]
    by (simp add: cursors_sent_def marker_param_def first_page_def fresh_loop_def)
qed

text \<open>
  Claim C7 at a container of eleven objects, listed in one page that is not truncated,
  when the writer thread has ended at its start because the output file cannot be opened.
  The first ten rows fill the queue, the \<open>put\<close> of the eleventh never returns: the loop is
  not left, the call hangs with ten items on the queue and no output file.
\<close>

theorem dead_writer_blocks_the_loop:
  "fst (listing_loop (\<lambda>S. []) True False default_config
          [turn_at 1700000000 (serve eleven_objects)] fresh_loop) = Some Blocked \<and>
   exit_status dead_writer_run = Hangs \<and>
   length (write_queue (exporter_after dead_writer_run)) = 10 \<and>
   key_rows (files_after dead_writer_run) ''out.csv'' = []"
  by code_simp

subsection \<open>Write failures\<close>

text \<open>
  Claim C2 on a disk where every write of a row fails. Both pages are fetched and their
  rows put on the queue. The failure in the loop of the writer thread is caught there and
  counted; the one after the loop reaches the handler that prints \<open>Fatal error in CSV
  writer\<close> and calls \<open>sys.exit(1)\<close>, which ends the writer thread and nothing else. The
  process exits with status 0 and no row is in the output file.
\<close>

theorem write_failure_exit_zero:
  "exit_status failing_disk_run = Exit 0 \<and>
   key_rows (files_after failing_disk_run) ''out.csv'' = [] \<and>
   error_count (exporter_after failing_disk_run) = 1 \<and>
   length (write_queue (exporter_after failing_disk_run)) = 3 \<and>
   map_option fst (csv_writer_worker (writer_turns failing_disk) (writer_last_write failing_disk)
                     (write_queue (exporter_after failing_disk_run))) = Some ThreadExit"
  by code_simp

subsection \<open>Trimming the dedup set\<close>

text \<open>The trim is applied by the loop after each page processed, when resume is
  enabled.\<close>

lemma listing_turn_trims:
  assumes "serves t p" and "runtime_adds (me r)"
  shows "processed_keys (me (snd (listing_turn it rm True cfg t r)))
           = (if enable_resume cfg
              then trim_processed_keys it (keys_after_batch cfg p (processed_keys (me r)))
              else keys_after_batch cfg p (processed_keys (me r)))"
proof -
  let ?r = "r\<lparr>batch_num := batch_num r + 1,
               me := (me r)\<lparr>current_batch_num := batch_num r + 1\<rparr>,
               requests := requests r @ [(marker_param (next_key_marker r),
                                          marker_param (next_version_marker r))]\<rparr>"
  obtain acc where a: "process_entries None
        (version_row (bucket cfg) (bops_compatible cfg) (url_encode cfg))
        (Versions p) (processed_keys (me r), [], 0) = (acc, False)"
    using never_blocked [of "version_row (bucket cfg) (bops_compatible cfg) (url_encode cfg)"
        "Versions p" "(processed_keys (me r), [], 0)"]
    by (cases "process_entries None
        (version_row (bucket cfg) (bops_compatible cfg) (url_encode cfg))
        (Versions p) (processed_keys (me r), [], 0)") auto
  obtain seen puts n where d: "process_entries None
        (delete_marker_row (bucket cfg) (bops_compatible cfg) (url_encode cfg))
        (DeleteMarkers p) acc = ((seen, puts, n), False)"
    using never_blocked [of "delete_marker_row (bucket cfg) (bops_compatible cfg) (url_encode cfg)"
        "DeleteMarkers p" acc]
    by (cases "process_entries None
        (delete_marker_row (bucket cfg) (bops_compatible cfg) (url_encode cfg))
        (DeleteMarkers p) acc") auto
  have pb: "process_batch (list_object_versions t) True (me ?r) (bucket cfg) (next_key_marker ?r)
       (next_version_marker ?r) (bops_compatible cfg) (url_encode cfg)
     = ((me ?r)\<lparr>processed_keys := seen, write_queue := write_queue (me ?r) @ map Some puts\<rparr>,
        BatchResult \<lparr>batch_count = int n, is_truncated = IsTruncated p,
                     result_key_marker = NextKeyMarker p,
                     result_version_marker = NextVersionIdMarker p,
                     error = None, retry_after_refresh = False\<rparr>)"
    using assms(1) a d
    by (simp add: serves_def process_batch_def Let_def)
  have keys: "keys_after_batch cfg p (processed_keys (me r)) = seen"
    using a d by (simp add: keys_after_batch_def)
  let ?self1 = "(me ?r)\<lparr>processed_keys := seen, write_queue := write_queue (me ?r) @ map Some puts\<rparr>"
  let ?r2 = "?r\<lparr>me := ?self1, total_items := total_items ?r + int n\<rparr>"
  have adds: "runtime_adds (me ?r2)"
    using assms(2) by (simp add: runtime_adds_def)
  obtain fs' where sv: "save_in_loop it cfg t ?r2 (NextKeyMarker p) (NextVersionIdMarker p) (batch_num ?r2) = Inr fs'"
    using save_returns [OF adds] unfolding save_in_loop_def by blast
  show ?thesis
    unfolding listing_turn_def Let_def pb keys
    using sv by (simp add: saving_def)
qed

text \<open>
  It replaces a set of 200000 identities or more by the last 10000 of Python's iteration
  over the set, a subset of exactly 10000 of its members, and leaves a smaller set as it
  is.
\<close>

lemma trim_at_watermark:
  assumes "distinct (it K)" and "set (it K) = K"
  shows "(200000 \<le> int (card K) \<longrightarrow>
            trim_processed_keys it K = set (drop (length (it K) - 10000) (it K)) \<and>
            trim_processed_keys it K \<subseteq> K \<and>
            card (trim_processed_keys it K) = 10000) \<and>
         (int (card K) < 200000 \<longrightarrow> trim_processed_keys it K = K)"
proof -
  have len: "card K = length (it K)"
    using assms distinct_card [of "it K"] by simp
  have d: "distinct (drop (length (it K) - 10000) (it K))"
    using assms(1) by simp
  have sub: "set (drop (length (it K) - 10000) (it K)) \<subseteq> K"
    using assms(2) set_drop_subset [of "length (it K) - 10000" "it K"] by simp
  have n: "nat (int (length (it K)) - 10000) = length (it K) - 10000"
    by simp
  show ?thesis
    using len sub distinct_card [OF d]
    by (auto simp: trim_processed_keys_def n)
qed








subsection \<open>Checkpoint rejection\<close>

text \<open>
  The rejections of a state file that holds an object: by the bucket, by the prefix, by
  the age, and, for a recorded fingerprint that is a float other than zero, by the output
  file's modification time when the float computed for the difference is above 10. A
  state file that is not JSON, or holds no object, is rejected as corrupted.
\<close>

lemma stale_check_age: "stale now st \<Longrightarrow> check_age now st = Some TooOld"
  by (auto simp: stale_def check_age_def fromisoformat_def split: json.splits option.splits if_splits)

lemma load_rejections:
  assumes "resume_state_file self = Some path" and "state_files fs path = Some (Json (JObj st))"
  shows "dict_get st ''bucket_name'' \<noteq> JStr bkt
           \<Longrightarrow> snd (load_resume_state now clock self fs bkt pfx out) = Inl BucketMismatch"
    and "dict_get st ''bucket_name'' = JStr bkt \<Longrightarrow> dict_get st ''prefix'' \<noteq> json_of_optstr pfx
           \<Longrightarrow> snd (load_resume_state now clock self fs bkt pfx out) = Inl PrefixMismatch"
    and "dict_get st ''bucket_name'' = JStr bkt \<Longrightarrow> dict_get st ''prefix'' = json_of_optstr pfx
           \<Longrightarrow> stale now st
           \<Longrightarrow> snd (load_resume_state now clock self fs bkt pfx out) = Inl TooOld"
    and "dict_get st ''bucket_name'' = JStr bkt \<Longrightarrow> dict_get st ''prefix'' = json_of_optstr pfx
           \<Longrightarrow> check_age now st = None \<Longrightarrow> loaded_keys st \<noteq> None
           \<Longrightarrow> getmtime fs out = Some c \<Longrightarrow> dict_get st ''csv_mtime'' = JFloat (Finite m)
           \<Longrightarrow> m \<noteq> 0 \<Longrightarrow> \<bar>c - m\<bar> > 10 + 1 / 2 ^ 50
           \<Longrightarrow> snd (load_resume_state now clock self fs bkt pfx out) = Inl CsvModified"
  using assms
  by (auto simp: load_resume_state_def stale_check_age check_csv_mtime_def Let_def)

lemma load_corrupted:
  assumes "resume_state_file self = Some path"
    and "state_files fs path = Some NotJson
         \<or> (\<exists>j. state_files fs path = Some (Json j) \<and> (\<forall>st. j \<noteq> JObj st))"
  shows "snd (load_resume_state now clock self fs bkt pfx out) = Inl Corrupted"
  using assms by (auto simp: load_resume_state_def split: json.splits)

lemma state_with_fingerprint_lookups:
  "dict_get (state_with_fingerprint m) ''bucket_name'' = JStr ''bkt''"
  "dict_get (state_with_fingerprint m) ''prefix'' = JNull"
  "dict_get (state_with_fingerprint m) ''timestamp'' = JStr (isoformat 1700000000000000)"
  "dict_get (state_with_fingerprint m) ''csv_mtime'' = (case m of None \<Rightarrow> JNull | Some x \<Rightarrow> JFloat (Finite x))"
  "loaded_keys (state_with_fingerprint m) = Some {}"
  "total_items_prints (state_with_fingerprint m)"
  by (simp_all add: state_with_fingerprint_def dict_get_def lookup_checkpoint_state
      loaded_keys_checkpoint total_items_prints_checkpoint json_of_optstr_def)

lemma state_with_fingerprint_age:
  "check_age now (state_with_fingerprint m) = (if now > 1700000000000000 + hours24 then Some TooOld else None)"
  "stale now (state_with_fingerprint m) = (now > 1700000000000000 + hours24)"
  by (simp_all add: check_age_def stale_def state_with_fingerprint_lookups fromisoformat_isoformat
      isoformat_not_empty)

lemma load_rejections_example:
  "snd (load_resume_state 1700003600000000 1700003600
          (new_exporter\<lparr>resume_state_file := Some ''s.json''\<rparr>) (job_files NotJson)
          ''bkt'' None ''out.csv'') = Inl Corrupted \<and>
   snd (load_resume_state 1700003600000000 1700003600
          (new_exporter\<lparr>resume_state_file := Some ''s.json''\<rparr>)
          (job_files (Json (JObj (state_with_fingerprint (Some 1700000000)))))
          ''other'' None ''out.csv'') = Inl BucketMismatch \<and>
   snd (load_resume_state 1700003600000000 1700003600
          (new_exporter\<lparr>resume_state_file := Some ''s.json''\<rparr>)
          (job_files (Json (JObj (state_with_fingerprint (Some 1700000000)))))
          ''bkt'' (Some ''logs/'') ''out.csv'') = Inl PrefixMismatch \<and>
   snd (load_resume_state 1700086400000001 1700086400
          (new_exporter\<lparr>resume_state_file := Some ''s.json''\<rparr>)
          (job_files (Json (JObj (state_with_fingerprint (Some 1700000000)))))
          ''bkt'' None ''out.csv'') = Inl TooOld \<and>
   snd (load_resume_state 1700003600000000 1700003600
          (new_exporter\<lparr>resume_state_file := Some ''s.json''\<rparr>)
          (job_files (Json (JObj (state_with_fingerprint (Some 1699999989)))))
          ''bkt'' None ''out.csv'') = Inl CsvModified"
  by (simp add: getmtime_def job_files_def load_resume_state_def
      state_with_fingerprint_lookups state_with_fingerprint_age hours24_def json_of_optstr_def
      check_csv_mtime_def)

text \<open>
  Claim C4 at a state whose recorded fingerprint is zero (an output file whose
  modification time was the epoch at the save): \<open>if state.get('csv_mtime') and ...\<close> takes
  the zero for no fingerprint and skips the check, and the state is accepted although the
  file's modification time now differs from the fingerprint by far more than 10 seconds.
\<close>

theorem zero_fingerprint_is_accepted:
  "fingerprint_differs (getmtime (job_files (Json (JObj (state_with_fingerprint (Some 0))))) ''out.csv'')
     (state_with_fingerprint (Some 0)) \<and>
   snd (load_resume_state 1700003600000000 1700003600
          (new_exporter\<lparr>resume_state_file := Some ''s.json''\<rparr>)
          (job_files (Json (JObj (state_with_fingerprint (Some 0))))) ''bkt'' None ''out.csv'')
     = Inr (state_with_fingerprint (Some 0))"
  by (simp add: fingerprint_differs_def getmtime_def job_files_def load_resume_state_def
      state_with_fingerprint_lookups state_with_fingerprint_age hours24_def json_of_optstr_def
      check_csv_mtime_def)

end
